theory Spec2Isabelle
  imports Complex_Main
begin

section \<open>The metric store: table \<open>daily_metrics\<close>\<close>

text \<open>
  The dashboard scripts keep every metric in one MySQL table, created by
  \<open>ensureTableExists\<close> of \<open>sample-data.js\<close>:
  \<^verbatim>\<open>
    metric_date DATE, representative ENUM(...), metric_name VARCHAR(100),
    metric_value DECIMAL(15,2), metric_type ENUM(...), source VARCHAR(50),
    created_at TIMESTAMP, updated_at TIMESTAMP,
    UNIQUE KEY unique_metric (metric_date, representative, metric_name)
  \<close>
  A row is a record of these columns, the table a list of rows in storage order.
  The surrogate \<open>id\<close> column is assigned by the server and read by no statement of the
  source; it is left out. The fields hold the column values as stored. JavaScript
  Numbers and SQL decimals are modelled as exact rationals and timestamps as natural
  numbers. Strings are compared character by character: a collation that folds letter
  case is not modelled, and every name the scripts write or match is in lower case.
\<close>

record row =
  metric_date :: string
  representative :: string
  metric_name :: string
  metric_value :: rat
  metric_type :: string
  source :: string
  created_at :: nat
  updated_at :: nat

type_synonym metric_key = "string \<times> string \<times> string"

definition row_key :: "row \<Rightarrow> metric_key" where
  "row_key r = (metric_date r, representative r, metric_name r)"

text \<open>The constraint \<open>UNIQUE KEY unique_metric\<close>.\<close>

definition unique_metric :: "row list \<Rightarrow> bool" where
  "unique_metric t \<longleftrightarrow> distinct (map row_key t)"

text \<open>
  \<open>INSERT INTO daily_metrics (...) VALUES (...) ON DUPLICATE KEY UPDATE
  metric_value = VALUES(metric_value), updated_at = CURRENT_TIMESTAMP\<close>:
  a row with the key of the new one keeps its place, type, source and creation time and
  takes the new value; otherwise the new row is appended.
\<close>

fun upsert :: "nat \<Rightarrow> row \<Rightarrow> row list \<Rightarrow> row list" where
  "upsert now new [] = [new]"
| "upsert now new (r # rs) =
     (if row_key r = row_key new
      then r\<lparr>metric_value := metric_value new, updated_at := now\<rparr> # rs
      else r # upsert now new rs)"

text \<open>
  \<open>connection.execute\<close> rejects when the server refuses the statement; the scripts catch
  the rejection, log it and go on. Which statements the server accepts is a parameter of
  the connection, given per key.
\<close>

datatype db_error = PersistenceError

type_synonym connection = "metric_key \<Rightarrow> bool"

definition execute_upsert ::
  "connection \<Rightarrow> nat \<Rightarrow> string \<Rightarrow> string \<Rightarrow> string \<Rightarrow> rat \<Rightarrow> string \<Rightarrow> string
     \<Rightarrow> row list \<Rightarrow> db_error + row list" where
  "execute_upsert conn now date rep metricName v ty src t =
     (if conn (date, rep, metricName)
      then Inr (upsert now
             \<lparr>metric_date = date, representative = rep, metric_name = metricName,
              metric_value = v, metric_type = ty, source = src,
              created_at = now, updated_at = now\<rparr> t)
      else Inl PersistenceError)"

text \<open>The value stored under a key, if any.\<close>

definition lookup_value :: "row list \<Rightarrow> metric_key \<Rightarrow> rat option" where
  "lookup_value t k = map_option metric_value (find (\<lambda>r. row_key r = k) t)"

section \<open>JavaScript arithmetic used by the writers\<close>

text \<open>\<open>Math.round\<close>: the nearest integer, halves towards plus infinity.\<close>

definition Math_round :: "rat \<Rightarrow> rat" where
  "Math_round x = of_int \<lfloor>x + 1 / 2\<rfloor>"

text \<open>
  \<open>Number.prototype.toFixed(2)\<close>, read back as the decimal it prints: the sign is
  split off, the magnitude becomes \<open>n / 100\<close> for the integer \<open>n\<close> nearest to a hundred
  times the magnitude, the larger one at a tie; from \<open>10^21\<close> on the number is printed
  as it is.
\<close>

definition toFixed2 :: "rat \<Rightarrow> rat" where
  "toFixed2 x =
     (if 10 ^ 21 \<le> \<bar>x\<bar> then x
      else if x < 0 then - (of_int \<lfloor>- x * 100 + 1 / 2\<rfloor> / 100)
      else of_int \<lfloor>x * 100 + 1 / 2\<rfloor> / 100)"

text \<open>
  \<open>Math.random()\<close>: the source of random numbers is a sequence and a position in it;
  a call returns the number at the position and advances.
\<close>

type_synonym random_source = "(nat \<Rightarrow> rat) \<times> nat"

definition Math_random :: "random_source \<Rightarrow> rat \<times> random_source" where
  "Math_random g = (fst g (snd g), (fst g, Suc (snd g)))"

definition random_ok :: "random_source \<Rightarrow> bool" where
  "random_ok g \<longleftrightarrow> (\<forall>i. 0 \<le> fst g i \<and> fst g i < 1)"

record metric =
  name :: string
  type :: string

definition repFactor :: "string \<Rightarrow> rat" where
  "repFactor rep =
     (if rep = ''sierra'' then 12 / 10
      else if rep = ''mikaela'' then 1
      else 8 / 10)"

section \<open>\<open>add-today-data.js\<close>\<close>

definition calculatedMetrics :: "metric list" where
  "calculatedMetrics =
     [\<lparr>name = ''appointments_booked'', type = ''count''\<rparr>,
      \<lparr>name = ''appointments_canceled'', type = ''count''\<rparr>,
      \<lparr>name = ''appointments_conducted'', type = ''count''\<rparr>,
      \<lparr>name = ''average_deal_size'', type = ''currency''\<rparr>,
      \<lparr>name = ''close_rate'', type = ''percentage''\<rparr>,
      \<lparr>name = ''show_rate'', type = ''percentage''\<rparr>]"

text \<open>The \<open>switch (metric.type)\<close> of \<open>generateDataForRepresentative\<close>: the value and the
  random source after the draws it made.\<close>

definition today_value :: "string \<Rightarrow> metric \<Rightarrow> random_source \<Rightarrow> rat \<times> random_source" where
  "today_value rep metric g =
     (let f = repFactor rep in
      if type metric = ''count'' then
        (if name metric = ''appointments_booked'' then
           (case Math_random g of (r, g1) \<Rightarrow> (Math_round (5 * f + r * 5), g1))
         else if name metric = ''appointments_canceled'' then
           (case Math_random g of (r, g1) \<Rightarrow> (Math_round (1 * f + r * 2), g1))
         else if name metric = ''appointments_conducted'' then
           (case Math_random g of (r1, g1) \<Rightarrow>
              let booked = Math_round (5 * f + r1 * 5) in
              case Math_random g1 of (r2, g2) \<Rightarrow>
                let canceled = Math_round (1 * f + r2 * 2) in
                (max 0 (booked - canceled), g2))
         else
           (case Math_random g of (r, g1) \<Rightarrow> (Math_round (8 * f + r * 4), g1)))
      else if type metric = ''percentage'' then
        (case
           (if name metric = ''close_rate'' then
              (case Math_random g of (r, g1) \<Rightarrow> (45 + 20 * f + r * 15, g1))
            else if name metric = ''show_rate'' then
              (case Math_random g of (r, g1) \<Rightarrow> (65 + 15 * f + r * 15, g1))
            else
              (case Math_random g of (r, g1) \<Rightarrow> (70 + r * 20, g1)))
         of (v, g1) \<Rightarrow> (min 100 v, g1))
      else if type metric = ''currency'' then
        (case Math_random g of (r, g1) \<Rightarrow>
           let v = 2000 + 4000 * f + r * 2000 in
           (Math_round (v / 100) * 100, g1))
      else (Math_round (10 * f), g))"

text \<open>The loop \<open>for (const metric of calculatedMetrics)\<close>: the state is the table and the
  random source.\<close>

fun today_loop ::
  "connection \<Rightarrow> nat \<Rightarrow> string \<Rightarrow> string \<Rightarrow> metric list
     \<Rightarrow> row list \<times> random_source \<Rightarrow> row list \<times> random_source" where
  "today_loop conn now date rep [] s = s"
| "today_loop conn now date rep (metric # ms) (t, g) =
     (case today_value rep metric g of (v, g') \<Rightarrow>
        let metricName = ''calculated_'' @ name metric in
        today_loop conn now date rep ms
          (case execute_upsert conn now date rep metricName (toFixed2 v)
                  (type metric) ''today-data-script'' t of
             Inr t' \<Rightarrow> (t', g')
           | Inl e \<Rightarrow> (t, g')))"

definition generateDataForRepresentative_today ::
  "connection \<Rightarrow> nat \<Rightarrow> string \<Rightarrow> string \<Rightarrow> row list \<times> random_source
     \<Rightarrow> row list \<times> random_source" where
  "generateDataForRepresentative_today conn now date rep s =
     today_loop conn now date rep calculatedMetrics s"

section \<open>\<open>sample-data.js\<close>\<close>

definition metricNames :: "metric list" where
  "metricNames =
     [\<lparr>name = ''new_clients_closed'', type = ''count''\<rparr>,
      \<lparr>name = ''organic_clients_closed'', type = ''count''\<rparr>,
      \<lparr>name = ''total_new_clients_closed'', type = ''count''\<rparr>,
      \<lparr>name = ''new_client_revenue'', type = ''currency''\<rparr>,
      \<lparr>name = ''rebuy_revenue'', type = ''currency''\<rparr>,
      \<lparr>name = ''total_revenue'', type = ''currency''\<rparr>]"

text \<open>
  \<open>daysSinceStart\<close> is \<open>moment(date).diff(moment().subtract(30, "days"), "days")\<close>, a whole
  number of days computed by the moment library from the clock. The loop reads the clock
  anew for every metric, so the day count may differ between the metrics of one bucket;
  it enters as the parameter \<open>daysSinceStart\<close>, a function of the number of the loop's
  iteration and of the date.
\<close>

definition dateFactor :: "(string \<Rightarrow> int) \<Rightarrow> string \<Rightarrow> rat" where
  "dateFactor daysSinceStart date = 1 + of_int (daysSinceStart date) * (1 / 100)"

definition sample_value ::
  "rat \<Rightarrow> string \<Rightarrow> metric \<Rightarrow> random_source \<Rightarrow> rat \<times> random_source" where
  "sample_value df rep metric g =
     (let f = repFactor rep in
      if type metric = ''count'' then
        (if name metric = ''new_clients_closed'' then
           (case Math_random g of (r, g1) \<Rightarrow> (Math_round (3 * f * df + r * 4), g1))
         else if name metric = ''organic_clients_closed'' then
           (case Math_random g of (r, g1) \<Rightarrow> (Math_round (2 * f * df + r * 3), g1))
         else if name metric = ''total_new_clients_closed'' then
           (case Math_random g of (r1, g1) \<Rightarrow>
              let newClients = Math_round (3 * f * df + r1 * 4) in
              case Math_random g1 of (r2, g2) \<Rightarrow>
                let organicClients = Math_round (2 * f * df + r2 * 3) in
                (newClients + organicClients, g2))
         else
           (case Math_random g of (r, g1) \<Rightarrow> (Math_round (8 * f * df + r * 5), g1)))
      else if type metric = ''currency'' then
        (case
           (if name metric = ''new_client_revenue'' then
              (case Math_random g of (r, g1) \<Rightarrow> (5000 + 8000 * f * df + r * 2000, g1))
            else if name metric = ''rebuy_revenue'' then
              (case Math_random g of (r, g1) \<Rightarrow> (3000 + 5000 * f * df + r * 2000, g1))
            else if name metric = ''total_revenue'' then
              (case Math_random g of (r1, g1) \<Rightarrow>
                 let newRevenue = 5000 + 8000 * f * df + r1 * 2000 in
                 case Math_random g1 of (r2, g2) \<Rightarrow>
                   let rebuyRevenue = 3000 + 5000 * f * df + r2 * 2000 in
                   (newRevenue + rebuyRevenue, g2))
            else
              (case Math_random g of (r, g1) \<Rightarrow> (2000 + 3000 * f * df + r * 1000, g1)))
         of (v, g1) \<Rightarrow> (Math_round (v / 100) * 100, g1))
      else (Math_round (10 * f * df), g))"

text \<open>The loop \<open>for (const metric of metricNames)\<close>; \<open>k\<close> counts its iterations.\<close>

fun sample_loop ::
  "connection \<Rightarrow> nat \<Rightarrow> (nat \<Rightarrow> string \<Rightarrow> int) \<Rightarrow> nat \<Rightarrow> string \<Rightarrow> string \<Rightarrow> metric list
     \<Rightarrow> row list \<times> random_source \<Rightarrow> row list \<times> random_source" where
  "sample_loop conn now daysSinceStart k date rep [] s = s"
| "sample_loop conn now daysSinceStart k date rep (metric # ms) (t, g) =
     (case sample_value (dateFactor (daysSinceStart k) date) rep metric g of (v, g') \<Rightarrow>
        let metricName = ''master_'' @ name metric in
        sample_loop conn now daysSinceStart (Suc k) date rep ms
          (case execute_upsert conn now date rep metricName (toFixed2 v)
                  (type metric) ''sample-data'' t of
             Inr t' \<Rightarrow> (t', g')
           | Inl e \<Rightarrow> (t, g')))"

definition generateDataForRepresentative_sample ::
  "connection \<Rightarrow> nat \<Rightarrow> (nat \<Rightarrow> string \<Rightarrow> int) \<Rightarrow> string \<Rightarrow> string
     \<Rightarrow> row list \<times> random_source \<Rightarrow> row list \<times> random_source" where
  "generateDataForRepresentative_sample conn now daysSinceStart date rep s =
     sample_loop conn now daysSinceStart 0 date rep metricNames s"

section \<open>SQL string functions\<close>

text \<open>
  \<open>s LIKE p\<close> for the patterns of the source, none of which has an escape character:
  \<open>%\<close> stands for any run of characters, \<open>_\<close> for exactly one character, any other
  character for itself.
\<close>

fun sql_like :: "string \<Rightarrow> string \<Rightarrow> bool" where
  "sql_like [] [] = True"
| "sql_like (c # cs) [] = False"
| "sql_like [] (p # ps) = (p = CHR ''%'' \<and> sql_like [] ps)"
| "sql_like (c # cs) (p # ps) =
     (if p = CHR ''%'' then sql_like (c # cs) ps \<or> sql_like cs (p # ps)
      else (p = CHR ''_'' \<or> p = c) \<and> sql_like cs ps)"

text \<open>\<open>REPLACE(s, from, to)\<close>: every occurrence of \<open>from\<close>, found left to right.\<close>

function sql_replace :: "string \<Rightarrow> string \<Rightarrow> string \<Rightarrow> string" where
  "sql_replace [] from to = []"
| "sql_replace (c # cs) from to =
     (if from \<noteq> [] \<and> take (length from) (c # cs) = from
      then to @ sql_replace (drop (length from) (c # cs)) from to
      else c # sql_replace cs from to)"
  by pat_completeness auto
termination
  by (relation "measure (\<lambda>(s, from, to). length s)") auto

section \<open>\<open>verify-metrics.js\<close>\<close>

text \<open>
  \<open>cleanupCalculatedMetrics\<close> counts the rows \<open>WHERE metric_name LIKE 'calculated_%'\<close>,
  returns when there are none and otherwise runs \<open>DELETE FROM daily_metrics\<close> with the
  same condition.
\<close>

definition cleanupCalculatedMetrics :: "row list \<Rightarrow> row list" where
  "cleanupCalculatedMetrics t =
     (let countToDelete = length (filter (\<lambda>r. sql_like (metric_name r) ''calculated_%'') t) in
      if countToDelete = 0 then t
      else filter (\<lambda>r. \<not> sql_like (metric_name r) ''calculated_%'') t)"

section \<open>The dashboard's read queries (\<open>app.get("/")\<close>)\<close>

text \<open>
  Each query is modelled by its \<open>WHERE\<close> condition and the expressions it selects. The
  \<open>ORDER BY representative, ...\<close> clauses of the row queries are not modelled: their
  results are listed in storage order.
\<close>

definition master_names :: "string list" where
  "master_names =
     [''master_new_clients_closed'', ''master_organic_clients_closed'',
      ''master_total_new_clients_closed'', ''master_new_client_revenue'',
      ''master_rebuy_revenue'', ''master_total_revenue'']"

definition excluded_calculated_names :: "string list" where
  "excluded_calculated_names =
     [''calculated_new_clients_closed'', ''calculated_organic_clients_closed'',
      ''calculated_total_new_clients_closed'', ''calculated_new_client_revenue'',
      ''calculated_rebuy_revenue'', ''calculated_total_revenue'']"

text \<open>\<open>REPLACE(REPLACE(metric_name, 'calculated_', ''), 'Calculated ', '')\<close>\<close>

definition strip_calculated :: "string \<Rightarrow> string" where
  "strip_calculated n = sql_replace (sql_replace n ''calculated_'' []) ''Calculated '' []"

text \<open>The \<open>CASE ... END as clean_metric_name\<close> of the row queries, as a function of
  \<open>metric_name\<close>.\<close>

definition clean_name :: "string \<Rightarrow> string" where
  "clean_name n =
     (if n \<in> set master_names then sql_replace n ''master_'' []
      else if sql_like n ''calculated_%'' then strip_calculated n
      else n)"

definition clean_metric_name :: "row \<Rightarrow> string" where
  "clean_metric_name r = clean_name (metric_name r)"

text \<open>First query, \<open>metrics\<close>: the master rows of the date, names as stored.\<close>

definition metrics_where :: "string \<Rightarrow> row \<Rightarrow> bool" where
  "metrics_where selectedDate r \<longleftrightarrow>
     metric_date r = selectedDate \<and> sql_like (metric_name r) ''master_%''"

definition metrics_query :: "string \<Rightarrow> row list \<Rightarrow> row list" where
  "metrics_query selectedDate t = filter (metrics_where selectedDate) t"

text \<open>Third query, \<open>repMetrics\<close>.\<close>

definition repMetrics_where :: "string \<Rightarrow> row \<Rightarrow> bool" where
  "repMetrics_where selectedDate r \<longleftrightarrow>
     metric_date r = selectedDate \<and>
     (metric_name r \<in> set master_names \<or>
      (sql_like (metric_name r) ''calculated_%'' \<and>
       metric_name r \<notin> set excluded_calculated_names))"

definition repMetrics :: "string \<Rightarrow> row list \<Rightarrow> (string \<times> row) list" where
  "repMetrics selectedDate t =
     map (\<lambda>r. (clean_metric_name r, r)) (filter (repMetrics_where selectedDate) t)"

text \<open>Fourth query, \<open>chartData\<close>.\<close>

definition chartData_where :: "string \<Rightarrow> row \<Rightarrow> bool" where
  "chartData_where selectedDate r \<longleftrightarrow>
     metric_date r = selectedDate \<and>
     metric_name r \<in> set [''calculated_appointments_conducted'', ''calculated_average_deal_size'']"

definition chartData :: "string \<Rightarrow> row list \<Rightarrow> (string \<times> row) list" where
  "chartData selectedDate t =
     map (\<lambda>r. (clean_metric_name r, r)) (filter (chartData_where selectedDate) t)"

text \<open>
  Second query, \<open>totalMetrics\<close>, the team totals: the rows of the date that match
  \<open>'calculated_%'\<close> and one of four name patterns are grouped by cleaned name and type;
  a group's total is \<open>AVG(metric_value)\<close> when \<open>metric_name LIKE '%average_deal_size%'\<close>
  and \<open>SUM(metric_value)\<close> otherwise; groups are ordered by a rank of the cleaned name.
  \<open>metric_name\<close> is not a grouping column: the server reads it from one row of the
  group, here the first. \<open>AVG\<close> is kept as the exact quotient.
\<close>

record total_row =
  total_name :: string
  total_value :: rat
  total_type :: string

definition total_names :: "string \<Rightarrow> bool" where
  "total_names n \<longleftrightarrow>
     sql_like n ''calculated_%'' \<and>
     (sql_like n ''%appointments_booked%'' \<or>
      sql_like n ''%appointments_canceled%'' \<or>
      sql_like n ''%appointments_conducted%'' \<or>
      sql_like n ''%average_deal_size%'')"

definition totalMetrics_where :: "string \<Rightarrow> row \<Rightarrow> bool" where
  "totalMetrics_where selectedDate r \<longleftrightarrow>
     metric_date r = selectedDate \<and> total_names (metric_name r)"

definition group_key :: "row \<Rightarrow> string \<times> string" where
  "group_key r = (strip_calculated (metric_name r), metric_type r)"

definition sql_sum :: "row list \<Rightarrow> rat" where
  "sql_sum g = sum_list (map metric_value g)"

definition sql_avg :: "row list \<Rightarrow> rat" where
  "sql_avg g = sum_list (map metric_value g) / of_nat (length g)"

definition order_rank :: "string \<Rightarrow> nat" where
  "order_rank n =
     (if sql_like n ''%appointments_booked%'' then 1
      else if sql_like n ''%appointments_canceled%'' then 2
      else if sql_like n ''%appointments_conducted%'' then 3
      else if sql_like n ''%average_deal_size%'' then 4
      else 5)"

definition average_name :: "string \<Rightarrow> bool" where
  "average_name n \<longleftrightarrow> sql_like n ''%average_deal_size%''"

definition total_of_group :: "row list \<Rightarrow> string \<times> string \<Rightarrow> total_row" where
  "total_of_group sel k =
     (let g = filter (\<lambda>r. group_key r = k) sel in
      \<lparr>total_name = fst k,
       total_value =
         (case g of
            [] \<Rightarrow> 0
          | r # _ \<Rightarrow>
              if average_name (metric_name r) then sql_avg g else sql_sum g),
       total_type = snd k\<rparr>)"

definition totalMetrics :: "string \<Rightarrow> row list \<Rightarrow> total_row list" where
  "totalMetrics selectedDate t =
     (let sel = filter (totalMetrics_where selectedDate) t in
      sort_key (\<lambda>x. order_rank (total_name x))
        (map (total_of_group sel) (remdups (map group_key sel))))"

section \<open>The Metric Calculator of the specification\<close>

text \<open>
  Modelled from the spec: the Metric Calculator (section 4.3), part of the Python
  pipeline that fills the table and is not among the JavaScript sources. A bucket holds
  the reconciled counts and sums of one date and representative; a percentage is the
  quotient times 100, and 0 when the divisor is 0. Division is checked, so that a
  division by zero would show as an error value.
\<close>

record bucket =
  booked :: nat
  canceled :: nat
  conducted :: nat
  new_clients_closed :: nat
  organic_clients_closed :: nat
  new_client_revenue :: rat
  rebuy_revenue :: rat

datatype calc_error = DivisionByZero

definition checked_divide :: "rat \<Rightarrow> rat \<Rightarrow> calc_error + rat" where
  "checked_divide a b = (if b = 0 then Inl DivisionByZero else Inr (a / b))"

definition show_rate :: "bucket \<Rightarrow> calc_error + rat" where
  "show_rate b =
     (if booked b = 0 then Inr 0
      else case checked_divide (of_nat (conducted b)) (of_nat (booked b)) of
             Inl e \<Rightarrow> Inl e
           | Inr q \<Rightarrow> Inr (q * 100))"

definition close_rate :: "bucket \<Rightarrow> calc_error + rat" where
  "close_rate b =
     (if conducted b = 0 then Inr 0
      else case checked_divide (of_nat (new_clients_closed b + organic_clients_closed b))
                  (of_nat (conducted b)) of
             Inl e \<Rightarrow> Inl e
           | Inr q \<Rightarrow> Inr (q * 100))"

section \<open>The specification's wording, for comparison with the code\<close>

text \<open>
  The average deal size as sections 3, 4.3 and 4.5 of the specification word it: total
  revenue divided by total deals and 0 without deals, for one bucket and, recomputed
  from the totals of all buckets, for the team. A bucket is given by its revenue and its
  number of deals.
\<close>

definition spec_average_deal_size :: "rat \<Rightarrow> nat \<Rightarrow> rat" where
  "spec_average_deal_size revenue deals = (if deals = 0 then 0 else revenue / of_nat deals)"

definition spec_team_average_deal_size :: "(rat \<times> nat) list \<Rightarrow> rat" where
  "spec_team_average_deal_size bs =
     spec_average_deal_size (sum_list (map fst bs)) (sum_list (map snd bs))"

text \<open>The names of the twelve-metric table of section 4.3 of the specification.\<close>

definition spec_metric_names :: "string list" where
  "spec_metric_names =
     [''appointments_booked'', ''appointments_canceled'', ''appointments_conducted'',
      ''close_rate'', ''show_rate'', ''average_deal_size'',
      ''new_clients_closed'', ''organic_clients_closed'', ''total_new_clients_closed'',
      ''new_client_revenue'', ''rebuy_revenue'', ''total_revenue'']"

text \<open>
  The rounding policy of section 4.3 in the spec's words: \<open>y\<close> is \<open>x\<close> rounded to two
  decimal places half-up when \<open>y\<close> has no digit beyond the second decimal place, is a
  nearest such number to \<open>x\<close>, and is the upper one at a tie.
\<close>

definition rounds_half_up_2dp :: "rat \<Rightarrow> rat \<Rightarrow> bool" where
  "rounds_half_up_2dp x y \<longleftrightarrow>
     y * 100 = of_int \<lfloor>y * 100\<rfloor> \<and> y - 1 / 200 \<le> x \<and> x < y + 1 / 200"

section \<open>Tables the scripts produce\<close>

text \<open>
  The tables that arise from the empty table, as \<open>ensureTableExists\<close> creates it, by runs
  of the two writers (with random numbers in \<open>[0, 1)\<close>, as \<open>Math.random\<close> returns them)
  and of the cleanup.
\<close>

inductive reachable :: "row list \<Rightarrow> bool" where
  created: "reachable []"
| today:
    "reachable t \<Longrightarrow> random_ok g \<Longrightarrow>
     reachable (fst (generateDataForRepresentative_today conn now date rep (t, g)))"
| sample:
    "reachable t \<Longrightarrow> random_ok g \<Longrightarrow>
     reachable
       (fst (generateDataForRepresentative_sample conn now daysSinceStart date rep (t, g)))"
| cleanup: "reachable t \<Longrightarrow> reachable (cleanupCalculatedMetrics t)"

text \<open>What a row written by one of the writers carries: name, type and source.\<close>

definition written_signatures :: "(string \<times> string \<times> string) list" where
  "written_signatures =
     map (\<lambda>m. (''calculated_'' @ name m, type m, ''today-data-script'')) calculatedMetrics @
     map (\<lambda>m. (''master_'' @ name m, type m, ''sample-data'')) metricNames"

definition signature :: "row \<Rightarrow> string \<times> string \<times> string" where
  "signature r = (metric_name r, metric_type r, source r)"

text \<open>The rows of a date that carry a given name: one per representative under the
  unique key.\<close>

definition rows_named :: "string \<Rightarrow> string \<Rightarrow> row list \<Rightarrow> row list" where
  "rows_named date n t = filter (\<lambda>r. metric_date r = date \<and> metric_name r = n) t"

text \<open>The percentage metrics that \<open>add-today-data.js\<close> stores lie between 0 and 100.\<close>

definition percentages_in_range :: "row list \<Rightarrow> bool" where
  "percentages_in_range t \<longleftrightarrow>
     (\<forall>r \<in> set t.
        metric_name r \<in> {''calculated_close_rate'', ''calculated_show_rate''} \<longrightarrow>
        0 \<le> metric_value r \<and> metric_value r \<le> 100)"

text \<open>Concrete inputs used below: random sequences and tables.\<close>

definition accept_all :: connection where
  "accept_all k = True"

definition first_day :: "nat \<Rightarrow> string \<Rightarrow> int" where
  "first_day k date = 0"

definition random_conducted :: "nat \<Rightarrow> rat" where
  "random_conducted i = (if i = 2 then 7 / 8 else 0)"

definition random_totals :: "nat \<Rightarrow> rat" where
  "random_totals i =
     (if i = 2 \<or> i = 3 then 3 / 4 else if i = 6 \<or> i = 7 then 1 / 2 else 0)"

definition deal_size_rows :: "row list" where
  "deal_size_rows =
     [\<lparr>metric_date = ''2025-07-01'', representative = ''sierra'',
       metric_name = ''calculated_average_deal_size'', metric_value = 8000,
       metric_type = ''currency'', source = ''today-data-script'',
       created_at = 0, updated_at = 0\<rparr>,
      \<lparr>metric_date = ''2025-07-01'', representative = ''mike'',
       metric_name = ''calculated_average_deal_size'', metric_value = 6000,
       metric_type = ''currency'', source = ''today-data-script'',
       created_at = 0, updated_at = 0\<rparr>]"

section \<open>Derived forms of a write\<close>

text \<open>The row that a writer binds to the placeholders of its statement, and the effect of
  \<open>try { await connection.execute(...) } catch (error) { console.error(...) }\<close> on the
  table: the upsert when the server accepts the statement, nothing otherwise.\<close>

definition written_row :: "nat \<Rightarrow> string \<Rightarrow> string \<Rightarrow> string \<Rightarrow> rat \<Rightarrow> string \<Rightarrow> string \<Rightarrow> row" where
  "written_row now date rep n v ty src =
     \<lparr>metric_date = date, representative = rep, metric_name = n, metric_value = v,
      metric_type = ty, source = src, created_at = now, updated_at = now\<rparr>"

definition write_row :: "connection \<Rightarrow> nat \<Rightarrow> row \<Rightarrow> row list \<Rightarrow> row list" where
  "write_row conn now new t = (if conn (row_key new) then upsert now new t else t)"

section \<open>Facts about the store\<close>

lemma row_key_update [simp]:
  "row_key (r\<lparr>metric_value := v, updated_at := n\<rparr>) = row_key r"
  by (simp add: row_key_def)

lemma lookup_upsert_same:
  "lookup_value (upsert now new t) (row_key new) = Some (metric_value new)"
  by (induction t) (simp_all add: lookup_value_def)

lemma lookup_upsert_other:
  "k \<noteq> row_key new \<Longrightarrow> lookup_value (upsert now new t) k = lookup_value t k"
  by (induction t) (auto simp add: lookup_value_def)

lemma upsert_keys:
  "map row_key (upsert now new t) =
     (if row_key new \<in> set (map row_key t) then map row_key t
      else map row_key t @ [row_key new])"
  by (induction t) auto

lemma unique_upsert: "unique_metric t \<Longrightarrow> unique_metric (upsert now new t)"
  by (simp add: unique_metric_def upsert_keys)

lemma upsert_cases:
  assumes "x \<in> set (upsert now new t)"
  shows "x \<in> set t \<or> x = new \<or>
         (\<exists>r \<in> set t. row_key r = row_key new \<and>
            x = r\<lparr>metric_value := metric_value new, updated_at := now\<rparr>)"
  using assms by (induction t) (auto split: if_splits)

section \<open>Facts about the arithmetic\<close>

lemma toFixed2_of_int [simp]: "toFixed2 (of_int n) = of_int n"
proof -
  have a: "\<lfloor>(of_int n :: rat) * 100 + 1 / 2\<rfloor> = n * 100"
    by (rule floor_unique) simp_all
  have b: "\<lfloor>- (of_int n :: rat) * 100 + 1 / 2\<rfloor> = - n * 100"
    by (rule floor_unique) simp_all
  show ?thesis
    using a b by (simp add: toFixed2_def)
qed

lemma Math_round_int: "Math_round x = of_int \<lfloor>x + 1 / 2\<rfloor>"
  by (simp add: Math_round_def)

lemma toFixed2_Math_round [simp]: "toFixed2 (Math_round x) = Math_round x"
  by (simp add: Math_round_def)

lemma toFixed2_Math_round_100 [simp]: "toFixed2 (Math_round x * 100) = Math_round x * 100"
proof -
  have "Math_round x * 100 = of_int (\<lfloor>x + 1 / 2\<rfloor> * 100)"
    by (simp add: Math_round_def)
  then show ?thesis
    by (simp only: toFixed2_of_int)
qed

lemma Math_round_mono: "x \<le> y \<Longrightarrow> Math_round x \<le> Math_round y"
  by (simp add: Math_round_def floor_mono)

lemma Math_round_nonneg: "0 \<le> x \<Longrightarrow> 0 \<le> Math_round x"
  by (simp add: Math_round_def)

lemma round_sum_near:
  "\<bar>Math_round (x + y) - (Math_round x + Math_round y)\<bar> \<le> 1"
proof -
  define p where "p = \<lfloor>x + 1 / 2\<rfloor>"
  define q where "q = \<lfloor>y + 1 / 2\<rfloor>"
  define r where "r = \<lfloor>x + y + 1 / 2\<rfloor>"
  have p: "of_int p \<le> x + 1 / 2" "x + 1 / 2 < of_int p + 1"
    unfolding p_def by linarith+
  have q: "of_int q \<le> y + 1 / 2" "y + 1 / 2 < of_int q + 1"
    unfolding q_def by linarith+
  have r: "of_int r \<le> x + y + 1 / 2" "x + y + 1 / 2 < of_int r + 1"
    unfolding r_def by linarith+
  have "(of_int r :: rat) < of_int (p + q + 2)"
    using p q r by simp
  then have up: "r \<le> p + q + 1"
    by (simp only: of_int_less_iff)
  have "(of_int (p + q - 2) :: rat) < of_int r"
    using p q r by simp
  then have low: "p + q - 1 \<le> r"
    by (simp only: of_int_less_iff)
  have "\<bar>(of_int r :: rat) - (of_int p + of_int q)\<bar> = of_int \<bar>r - (p + q)\<bar>"
    by simp
  also have "\<dots> \<le> of_int 1"
    using up low by (simp only: of_int_le_iff)
  finally show ?thesis
    by (simp add: Math_round_def p_def q_def r_def)
qed

lemma round100_sum_near:
  "\<bar>Math_round ((a + b) / 100) * 100 -
     (Math_round (a / 100) * 100 + Math_round (b / 100) * 100)\<bar> \<le> 100"
proof -
  have "\<bar>Math_round (a / 100 + b / 100) - (Math_round (a / 100) + Math_round (b / 100))\<bar> \<le> 1"
    by (rule round_sum_near)
  then have "\<bar>Math_round ((a + b) / 100) - (Math_round (a / 100) + Math_round (b / 100))\<bar> * 100
      \<le> 1 * 100"
    by (simp add: add_divide_distrib)
  then show ?thesis
    by (simp add: abs_if split: if_splits)
qed

lemma toFixed2_percentage:
  assumes "0 \<le> x" and "x \<le> 100"
  shows "0 \<le> toFixed2 x \<and> toFixed2 x \<le> 100"
proof -
  have small: "\<not> 10 ^ 21 \<le> \<bar>x\<bar>"
    using assms by simp
  have "\<lfloor>x * 100 + 1 / 2\<rfloor> \<le> 10000"
  proof -
    have "x * 100 + 1 / 2 < of_int 10001"
      using assms by simp
    then have "\<lfloor>x * 100 + 1 / 2\<rfloor> < 10001"
      by (simp only: floor_less_iff)
    then show ?thesis by simp
  qed
  then have up: "(of_int \<lfloor>x * 100 + 1 / 2\<rfloor> :: rat) \<le> 10000"
    by linarith
  have "0 \<le> \<lfloor>x * 100 + 1 / 2\<rfloor>"
    using assms by simp
  then have low: "(0 :: rat) \<le> of_int \<lfloor>x * 100 + 1 / 2\<rfloor>"
    by simp
  show ?thesis
    using small assms up low by (simp add: toFixed2_def)
qed

lemma toFixed2_half_up:
  assumes "0 \<le> x" and "x < 10 ^ 21"
  shows "rounds_half_up_2dp x (toFixed2 x)"
proof -
  define n where "n = \<lfloor>x * 100 + 1 / 2\<rfloor>"
  have y: "toFixed2 x = of_int n / 100"
    using assms by (simp add: toFixed2_def n_def)
  have n: "of_int n \<le> x * 100 + 1 / 2" "x * 100 + 1 / 2 < of_int n + 1"
    unfolding n_def by linarith+
  show ?thesis
    unfolding rounds_half_up_2dp_def y using n by simp
qed

lemma rounds_half_up_hundreds: "rounds_half_up_2dp (Math_round x * 100) (Math_round x * 100)"
proof -
  have "Math_round x * 100 * 100 = of_int (\<lfloor>x + 1 / 2\<rfloor> * 10000)"
    by (simp add: Math_round_def)
  then have "Math_round x * 100 * 100 = of_int \<lfloor>Math_round x * 100 * 100\<rfloor>"
    by (simp only: floor_of_int)
  then show ?thesis
    by (simp add: rounds_half_up_2dp_def)
qed

section \<open>Facts about \<open>LIKE\<close>\<close>

lemma sql_like_percent [simp]: "sql_like s ''%''"
  by (induction s) simp_all

lemma sql_like_literal:
  "p \<noteq> CHR ''%'' \<Longrightarrow> p \<noteq> CHR ''_'' \<Longrightarrow>
   sql_like s (p # ps) \<longleftrightarrow> (\<exists>cs. s = p # cs \<and> sql_like cs ps)"
  by (cases s) auto

lemma sql_like_underscore:
  "sql_like s (CHR ''_'' # ps) \<longleftrightarrow> (\<exists>c cs. s = c # cs \<and> sql_like cs ps)"
  by (cases s) auto

lemma sql_like_calculated:
  "sql_like s ''calculated_%'' \<longleftrightarrow> (\<exists>c rest. s = ''calculated'' @ c # rest)"
  by (auto simp add: sql_like_literal sql_like_underscore)

lemma sql_like_master:
  "sql_like s ''master_%'' \<longleftrightarrow> (\<exists>c rest. s = ''master'' @ c # rest)"
  by (auto simp add: sql_like_literal sql_like_underscore)

section \<open>Facts about the writers\<close>

lemma written_row_simps [simp]:
  "row_key (written_row now date rep n v ty src) = (date, rep, n)"
  "metric_value (written_row now date rep n v ty src) = v"
  "metric_name (written_row now date rep n v ty src) = n"
  "metric_type (written_row now date rep n v ty src) = ty"
  "source (written_row now date rep n v ty src) = src"
  "metric_date (written_row now date rep n v ty src) = date"
  by (simp_all add: written_row_def row_key_def)

lemma lookup_write_row:
  "lookup_value (write_row conn now new t) k =
     (if k = row_key new \<and> conn k then Some (metric_value new) else lookup_value t k)"
  by (auto simp add: write_row_def lookup_upsert_same lookup_upsert_other)

lemma today_loop_Cons:
  "today_loop conn now date rep (m # ms) (t, g) =
     today_loop conn now date rep ms
       (write_row conn now
          (written_row now date rep (''calculated_'' @ name m)
             (toFixed2 (fst (today_value rep m g))) (type m) ''today-data-script'') t,
        snd (today_value rep m g))"
  by (simp add: execute_upsert_def write_row_def written_row_def Let_def row_key_def split: prod.splits)

lemma today_value_simps:
  "today_value rep \<lparr>name = ''appointments_booked'', type = ''count''\<rparr> (rnd, i) =
     (Math_round (5 * repFactor rep + rnd i * 5), (rnd, Suc i))"
  "today_value rep \<lparr>name = ''appointments_canceled'', type = ''count''\<rparr> (rnd, i) =
     (Math_round (1 * repFactor rep + rnd i * 2), (rnd, Suc i))"
  "today_value rep \<lparr>name = ''appointments_conducted'', type = ''count''\<rparr> (rnd, i) =
     (max 0 (Math_round (5 * repFactor rep + rnd i * 5) -
             Math_round (1 * repFactor rep + rnd (Suc i) * 2)), (rnd, Suc (Suc i)))"
  "today_value rep \<lparr>name = ''average_deal_size'', type = ''currency''\<rparr> (rnd, i) =
     (Math_round ((2000 + 4000 * repFactor rep + rnd i * 2000) / 100) * 100, (rnd, Suc i))"
  "today_value rep \<lparr>name = ''close_rate'', type = ''percentage''\<rparr> (rnd, i) =
     (min 100 (45 + 20 * repFactor rep + rnd i * 15), (rnd, Suc i))"
  "today_value rep \<lparr>name = ''show_rate'', type = ''percentage''\<rparr> (rnd, i) =
     (min 100 (65 + 15 * repFactor rep + rnd i * 15), (rnd, Suc i))"
  by (simp_all add: today_value_def Math_random_def Let_def)

lemma toFixed2_max_round [simp]:
  "toFixed2 (max 0 (Math_round a - Math_round b)) = max 0 (Math_round a - Math_round b)"
proof -
  have "max 0 (Math_round a - Math_round b) =
        of_int (max 0 (\<lfloor>a + 1 / 2\<rfloor> - \<lfloor>b + 1 / 2\<rfloor>))"
    by (simp add: Math_round_def max_def)
  then show ?thesis
    by (simp only: toFixed2_of_int)
qed

lemma today_run:
  "fst (generateDataForRepresentative_today conn now date rep (t, (rnd, i))) =
   write_row conn now (written_row now date rep ''calculated_show_rate''
       (toFixed2 (min 100 (65 + 15 * repFactor rep + rnd (i + 6) * 15)))
       ''percentage'' ''today-data-script'')
    (write_row conn now (written_row now date rep ''calculated_close_rate''
       (toFixed2 (min 100 (45 + 20 * repFactor rep + rnd (i + 5) * 15)))
       ''percentage'' ''today-data-script'')
    (write_row conn now (written_row now date rep ''calculated_average_deal_size''
       (Math_round ((2000 + 4000 * repFactor rep + rnd (i + 4) * 2000) / 100) * 100)
       ''currency'' ''today-data-script'')
    (write_row conn now (written_row now date rep ''calculated_appointments_conducted''
       (max 0 (Math_round (5 * repFactor rep + rnd (i + 2) * 5) -
               Math_round (1 * repFactor rep + rnd (i + 3) * 2)))
       ''count'' ''today-data-script'')
    (write_row conn now (written_row now date rep ''calculated_appointments_canceled''
       (Math_round (1 * repFactor rep + rnd (i + 1) * 2))
       ''count'' ''today-data-script'')
    (write_row conn now (written_row now date rep ''calculated_appointments_booked''
       (Math_round (5 * repFactor rep + rnd i * 5))
       ''count'' ''today-data-script'') t)))))"
  by (simp add: generateDataForRepresentative_today_def calculatedMetrics_def
        today_loop_Cons today_value_simps eval_nat_numeral del: today_loop.simps(2))

lemma sample_loop_Cons:
  "sample_loop conn now daysSinceStart k date rep (m # ms) (t, g) =
     sample_loop conn now daysSinceStart (Suc k) date rep ms
       (write_row conn now
          (written_row now date rep (''master_'' @ name m)
             (toFixed2 (fst (sample_value (dateFactor (daysSinceStart k) date) rep m g)))
             (type m) ''sample-data'') t,
        snd (sample_value (dateFactor (daysSinceStart k) date) rep m g))"
  by (simp add: execute_upsert_def write_row_def written_row_def Let_def row_key_def
        split: prod.splits)

lemma sample_value_simps:
  "sample_value df rep \<lparr>name = ''new_clients_closed'', type = ''count''\<rparr> (rnd, i) =
     (Math_round (3 * repFactor rep * df + rnd i * 4), (rnd, Suc i))"
  "sample_value df rep \<lparr>name = ''organic_clients_closed'', type = ''count''\<rparr> (rnd, i) =
     (Math_round (2 * repFactor rep * df + rnd i * 3), (rnd, Suc i))"
  "sample_value df rep \<lparr>name = ''total_new_clients_closed'', type = ''count''\<rparr> (rnd, i) =
     (Math_round (3 * repFactor rep * df + rnd i * 4) +
      Math_round (2 * repFactor rep * df + rnd (Suc i) * 3), (rnd, Suc (Suc i)))"
  "sample_value df rep \<lparr>name = ''new_client_revenue'', type = ''currency''\<rparr> (rnd, i) =
     (Math_round ((5000 + 8000 * repFactor rep * df + rnd i * 2000) / 100) * 100,
      (rnd, Suc i))"
  "sample_value df rep \<lparr>name = ''rebuy_revenue'', type = ''currency''\<rparr> (rnd, i) =
     (Math_round ((3000 + 5000 * repFactor rep * df + rnd i * 2000) / 100) * 100,
      (rnd, Suc i))"
  "sample_value df rep \<lparr>name = ''total_revenue'', type = ''currency''\<rparr> (rnd, i) =
     (Math_round ((5000 + 8000 * repFactor rep * df + rnd i * 2000 +
                   (3000 + 5000 * repFactor rep * df + rnd (Suc i) * 2000)) / 100) * 100,
      (rnd, Suc (Suc i)))"
  by (simp_all add: sample_value_def Math_random_def Let_def ac_simps)

lemma toFixed2_sum_round [simp]:
  "toFixed2 (Math_round a + Math_round b) = Math_round a + Math_round b"
proof -
  have "Math_round a + Math_round b = of_int (\<lfloor>a + 1 / 2\<rfloor> + \<lfloor>b + 1 / 2\<rfloor>)"
    by (simp add: Math_round_def)
  then show ?thesis
    by (simp only: toFixed2_of_int)
qed

lemma sample_run:
  "fst (generateDataForRepresentative_sample conn now daysSinceStart date rep (t, (rnd, i))) =
   write_row conn now (written_row now date rep ''master_total_revenue''
       (Math_round ((5000 + 8000 * repFactor rep * dateFactor (daysSinceStart 5) date
                       + rnd (i + 6) * 2000 +
                     (3000 + 5000 * repFactor rep * dateFactor (daysSinceStart 5) date
                       + rnd (i + 7) * 2000)) / 100) * 100)
       ''currency'' ''sample-data'')
    (write_row conn now (written_row now date rep ''master_rebuy_revenue''
       (Math_round ((3000 + 5000 * repFactor rep * dateFactor (daysSinceStart 4) date
                       + rnd (i + 5) * 2000) / 100) * 100)
       ''currency'' ''sample-data'')
    (write_row conn now (written_row now date rep ''master_new_client_revenue''
       (Math_round ((5000 + 8000 * repFactor rep * dateFactor (daysSinceStart 3) date
                       + rnd (i + 4) * 2000) / 100) * 100)
       ''currency'' ''sample-data'')
    (write_row conn now (written_row now date rep ''master_total_new_clients_closed''
       (Math_round (3 * repFactor rep * dateFactor (daysSinceStart 2) date + rnd (i + 2) * 4) +
        Math_round (2 * repFactor rep * dateFactor (daysSinceStart 2) date + rnd (i + 3) * 3))
       ''count'' ''sample-data'')
    (write_row conn now (written_row now date rep ''master_organic_clients_closed''
       (Math_round (2 * repFactor rep * dateFactor (daysSinceStart 1) date + rnd (i + 1) * 3))
       ''count'' ''sample-data'')
    (write_row conn now (written_row now date rep ''master_new_clients_closed''
       (Math_round (3 * repFactor rep * dateFactor (daysSinceStart 0) date + rnd i * 4))
       ''count'' ''sample-data'') t)))))"
  by (simp add: generateDataForRepresentative_sample_def metricNames_def
        sample_loop_Cons sample_value_simps eval_nat_numeral del: sample_loop.simps(2))

lemma unique_write_row: "unique_metric t \<Longrightarrow> unique_metric (write_row conn now new t)"
  by (simp add: write_row_def unique_upsert)

lemma keys_write_row_extend:
  "\<exists>ks. map row_key u = map row_key t @ ks \<Longrightarrow>
   \<exists>ks. map row_key (write_row conn now new u) = map row_key t @ ks"
  by (auto simp add: write_row_def upsert_keys)

lemma keys_write_row_same:
  "(conn (row_key new) \<longrightarrow> row_key new \<in> set (map row_key t)) \<Longrightarrow>
   map row_key (write_row conn now new t) = map row_key t"
  by (auto simp add: write_row_def upsert_keys)

lemma lookup_Some_key: "lookup_value t k = Some v \<Longrightarrow> k \<in> set (map row_key t)"
  by (auto simp add: lookup_value_def find_Some_iff)

lemma sample_key_present:
  assumes "m \<in> set metricNames" and "conn (date, rep, ''master_'' @ name m)"
  shows "(date, rep, ''master_'' @ name m) \<in> set (map row_key
     (fst (generateDataForRepresentative_sample conn now daysSinceStart date rep (t, (rnd, i)))))"
proof -
  have "\<exists>v. lookup_value
      (fst (generateDataForRepresentative_sample conn now daysSinceStart date rep (t, (rnd, i))))
      (date, rep, ''master_'' @ name m) = Some v"
    using assms by (auto simp add: metricNames_def sample_run lookup_write_row)
  then show ?thesis
    by (auto dest: lookup_Some_key)
qed

lemma sample_rerun_keys:
  assumes "\<forall>m \<in> set metricNames.
      conn' (date, rep, ''master_'' @ name m) \<longrightarrow> (date, rep, ''master_'' @ name m) \<in> set (map row_key t)"
  shows "map row_key
      (fst (generateDataForRepresentative_sample conn' now' daysSinceStart' date rep (t, (rnd', i')))) =
     map row_key t"
  using assms by (simp add: metricNames_def sample_run keys_write_row_same)

lemma sample_lookup_own:
  assumes "m \<in> set metricNames" and "conn (date, rep, ''master_'' @ name m)"
  shows "lookup_value
      (fst (generateDataForRepresentative_sample conn now daysSinceStart date rep (t, (rnd, i))))
      (date, rep, ''master_'' @ name m) =
    lookup_value
      (fst (generateDataForRepresentative_sample conn now daysSinceStart date rep ([], (rnd, i))))
      (date, rep, ''master_'' @ name m)"
  using assms by (auto simp add: metricNames_def sample_run lookup_write_row)

lemma percentages_write_row:
  assumes "percentages_in_range t"
    and "metric_name new \<in> {''calculated_close_rate'', ''calculated_show_rate''} \<longrightarrow>
         0 \<le> metric_value new \<and> metric_value new \<le> 100"
  shows "percentages_in_range (write_row conn now new t)"
proof -
  have "0 \<le> metric_value x \<and> metric_value x \<le> 100"
    if x: "x \<in> set (upsert now new t)"
      and n: "metric_name x \<in> {''calculated_close_rate'', ''calculated_show_rate''}" for x
  proof -
    consider "x \<in> set t" | "x = new"
      | r where "r \<in> set t" "row_key r = row_key new"
          "x = r\<lparr>metric_value := metric_value new, updated_at := now\<rparr>"
      using upsert_cases [OF x] by blast
    then show ?thesis
    proof cases
      case 1
      then show ?thesis
        using assms(1) n by (auto simp add: percentages_in_range_def)
    next
      case 2
      then show ?thesis
        using assms(2) n by auto
    next
      case 3
      then have "metric_name new = metric_name x"
        by (simp add: row_key_def)
      then show ?thesis
        using assms(2) n 3 by auto
    qed
  qed
  then show ?thesis
    using assms(1) by (auto simp add: write_row_def percentages_in_range_def)
qed

lemma set_cleanup: "set (cleanupCalculatedMetrics t) \<subseteq> set t"
  by (auto simp add: cleanupCalculatedMetrics_def Let_def)

section \<open>Facts about the tables the scripts produce\<close>

lemma signature_write_row:
  assumes "\<forall>r \<in> set t. signature r \<in> S" and "signature new \<in> S"
  shows "\<forall>r \<in> set (write_row conn now new t). signature r \<in> S"
proof
  fix x
  assume x: "x \<in> set (write_row conn now new t)"
  show "signature x \<in> S"
  proof (cases "conn (row_key new)")
    case True
    then have "x \<in> set (upsert now new t)"
      using x by (simp add: write_row_def)
    then consider "x \<in> set t" | "x = new"
      | r where "r \<in> set t" "x = r\<lparr>metric_value := metric_value new, updated_at := now\<rparr>"
      using upsert_cases by blast
    then show ?thesis
    proof cases
      case 3
      then have "signature x = signature r"
        by (simp add: signature_def)
      then show ?thesis
        using assms(1) 3 by simp
    qed (use assms in auto)
  next
    case False
    then show ?thesis
      using x assms(1) by (simp add: write_row_def)
  qed
qed

lemma signature_written_row [simp]:
  "signature (written_row now date rep n v ty src) = (n, ty, src)"
  by (simp add: signature_def)

lemma reachable_signatures:
  assumes "reachable t"
  shows "\<forall>r \<in> set t. signature r \<in> set written_signatures"
  using assms
proof (induction rule: reachable.induct)
  case created
  show ?case by simp
next
  case (today t g conn now date rep)
  obtain rnd i where g: "g = (rnd, i)"
    by (cases g)
  show ?case
    unfolding g today_run
    using today(3)
    by (intro signature_write_row)
       (simp_all add: written_signatures_def calculatedMetrics_def)
next
  case (sample t g conn now daysSinceStart date rep)
  obtain rnd i where g: "g = (rnd, i)"
    by (cases g)
  show ?case
    unfolding g sample_run
    using sample(3)
    by (intro signature_write_row)
       (simp_all add: written_signatures_def metricNames_def)
next
  case (cleanup t)
  then show ?case
    using set_cleanup [of t] by auto
qed

lemma written_signature_cases:
  assumes "signature r \<in> set written_signatures"
  shows "(metric_name r, metric_type r, source r) \<in>
    {(''calculated_appointments_booked'', ''count'', ''today-data-script''),
     (''calculated_appointments_canceled'', ''count'', ''today-data-script''),
     (''calculated_appointments_conducted'', ''count'', ''today-data-script''),
     (''calculated_average_deal_size'', ''currency'', ''today-data-script''),
     (''calculated_close_rate'', ''percentage'', ''today-data-script''),
     (''calculated_show_rate'', ''percentage'', ''today-data-script''),
     (''master_new_clients_closed'', ''count'', ''sample-data''),
     (''master_organic_clients_closed'', ''count'', ''sample-data''),
     (''master_total_new_clients_closed'', ''count'', ''sample-data''),
     (''master_new_client_revenue'', ''currency'', ''sample-data''),
     (''master_rebuy_revenue'', ''currency'', ''sample-data''),
     (''master_total_revenue'', ''currency'', ''sample-data'')}"
  using assms
  by (simp add: written_signatures_def calculatedMetrics_def metricNames_def signature_def)

lemma clean_name_written:
  "clean_name ''calculated_appointments_booked'' = ''appointments_booked''"
  "clean_name ''calculated_appointments_canceled'' = ''appointments_canceled''"
  "clean_name ''calculated_appointments_conducted'' = ''appointments_conducted''"
  "clean_name ''calculated_average_deal_size'' = ''average_deal_size''"
  "clean_name ''calculated_close_rate'' = ''close_rate''"
  "clean_name ''calculated_show_rate'' = ''show_rate''"
  "clean_name ''master_new_clients_closed'' = ''new_clients_closed''"
  "clean_name ''master_organic_clients_closed'' = ''organic_clients_closed''"
  "clean_name ''master_total_new_clients_closed'' = ''total_new_clients_closed''"
  "clean_name ''master_new_client_revenue'' = ''new_client_revenue''"
  "clean_name ''master_rebuy_revenue'' = ''rebuy_revenue''"
  "clean_name ''master_total_revenue'' = ''total_revenue''"
  by code_simp+

lemma total_names_written:
  "total_names ''calculated_appointments_booked'' = True"
  "total_names ''calculated_appointments_canceled'' = True"
  "total_names ''calculated_appointments_conducted'' = True"
  "total_names ''calculated_average_deal_size'' = True"
  "total_names ''calculated_close_rate'' = False"
  "total_names ''calculated_show_rate'' = False"
  "total_names ''master_new_clients_closed'' = False"
  "total_names ''master_organic_clients_closed'' = False"
  "total_names ''master_total_new_clients_closed'' = False"
  "total_names ''master_new_client_revenue'' = False"
  "total_names ''master_rebuy_revenue'' = False"
  "total_names ''master_total_revenue'' = False"
  by code_simp+

lemma strip_calculated_written:
  "strip_calculated ''calculated_appointments_booked'' = ''appointments_booked''"
  "strip_calculated ''calculated_appointments_canceled'' = ''appointments_canceled''"
  "strip_calculated ''calculated_appointments_conducted'' = ''appointments_conducted''"
  "strip_calculated ''calculated_average_deal_size'' = ''average_deal_size''"
  by code_simp+

lemma average_name_written:
  "average_name ''calculated_appointments_booked'' = False"
  "average_name ''calculated_appointments_canceled'' = False"
  "average_name ''calculated_appointments_conducted'' = False"
  "average_name ''calculated_average_deal_size'' = True"
  by code_simp+

lemma like_master_written:
  "sql_like ''calculated_appointments_booked'' ''master_%'' = False"
  "sql_like ''calculated_appointments_canceled'' ''master_%'' = False"
  "sql_like ''calculated_appointments_conducted'' ''master_%'' = False"
  "sql_like ''calculated_average_deal_size'' ''master_%'' = False"
  "sql_like ''calculated_close_rate'' ''master_%'' = False"
  "sql_like ''calculated_show_rate'' ''master_%'' = False"
  "sql_like ''master_new_clients_closed'' ''master_%'' = True"
  "sql_like ''master_organic_clients_closed'' ''master_%'' = True"
  "sql_like ''master_total_new_clients_closed'' ''master_%'' = True"
  "sql_like ''master_new_client_revenue'' ''master_%'' = True"
  "sql_like ''master_rebuy_revenue'' ''master_%'' = True"
  "sql_like ''master_total_revenue'' ''master_%'' = True"
  by code_simp+

lemma clean_written:
  assumes "signature r \<in> set written_signatures"
  shows "clean_metric_name r \<in> set spec_metric_names \<and>
         (metric_name r = ''calculated_'' @ clean_metric_name r \<or>
          metric_name r = ''master_'' @ clean_metric_name r)"
  using written_signature_cases [OF assms]
  by (auto simp add: clean_metric_name_def clean_name_written spec_metric_names_def)

lemma bare_name_not_written:
  assumes "signature r \<in> set written_signatures"
  shows "metric_name r \<notin> set spec_metric_names"
  using written_signature_cases [OF assms]
  by (auto simp add: spec_metric_names_def)

lemma written_by:
  assumes "signature r \<in> set written_signatures"
  shows "(\<exists>m \<in> set calculatedMetrics.
            metric_name r = ''calculated_'' @ name m \<and> source r = ''today-data-script'') \<or>
         (\<exists>m \<in> set metricNames.
            metric_name r = ''master_'' @ name m \<and> source r = ''sample-data'')"
  using assms
  by (auto simp add: written_signatures_def signature_def)

lemma master_written:
  assumes "signature r \<in> set written_signatures"
    and "sql_like (metric_name r) ''master_%''"
  shows "\<exists>m \<in> set metricNames. metric_name r = ''master_'' @ name m"
  using written_signature_cases [OF assms(1)] assms(2)
  by (auto simp add: like_master_written metricNames_def simp del: sql_like.simps)

lemma totalMetrics_member:
  "x \<in> set (totalMetrics d t) \<longleftrightarrow>
     (\<exists>r \<in> set t. totalMetrics_where d r \<and>
        x = total_of_group (filter (totalMetrics_where d) t) (group_key r))"
  by (auto simp add: totalMetrics_def Let_def)

lemma cleanup_filter:
  "cleanupCalculatedMetrics t =
     filter (\<lambda>r. \<not> sql_like (metric_name r) ''calculated_%'') t"
proof -
  have "filter (\<lambda>r. sql_like (metric_name r) ''calculated_%'') t = [] \<Longrightarrow>
        filter (\<lambda>r. \<not> sql_like (metric_name r) ''calculated_%'') t = t"
    by (simp add: filter_empty_conv del: sql_like.simps)
  then show ?thesis
    by (simp add: cleanupCalculatedMetrics_def Let_def del: sql_like.simps)
qed

lemma cleanup_deletes_like:
  "set (cleanupCalculatedMetrics t) =
     {r \<in> set t. \<not> (\<exists>c rest. metric_name r = ''calculated'' @ c # rest)}"
  by (simp add: cleanup_filter sql_like_calculated del: sql_like.simps)


lemma cleanup_deletes_prefixed:
  assumes "take 11 (metric_name r) = ''calculated_''"
  shows "r \<notin> set (cleanupCalculatedMetrics t)"
proof -
  have "metric_name r = take 11 (metric_name r) @ drop 11 (metric_name r)"
    by simp
  then have "metric_name r = ''calculated'' @ CHR ''_'' # drop 11 (metric_name r)"
    using assms by simp
  then have "\<exists>c rest. metric_name r = ''calculated'' @ c # rest"
    by blast
  then show ?thesis
    by (simp only: cleanup_deletes_like mem_Collect_eq simp_thms)
qed

lemma total_group_written:
  assumes "signature r \<in> set written_signatures" and "total_names (metric_name r)"
  shows "metric_name r \<in> {''calculated_appointments_booked'',
           ''calculated_appointments_canceled'', ''calculated_appointments_conducted'',
           ''calculated_average_deal_size''} \<and>
         metric_name r = ''calculated_'' @ strip_calculated (metric_name r) \<and>
         metric_type r =
           (if metric_name r = ''calculated_average_deal_size'' then ''currency'' else ''count'') \<and>
         average_name (metric_name r) = (metric_name r = ''calculated_average_deal_size'')"
  using written_signature_cases [OF assms(1)] assms(2)
  by (auto simp add: total_names_written strip_calculated_written average_name_written)

lemma same_group_written:
  assumes "signature r \<in> set written_signatures" and "total_names (metric_name r)"
    and "signature q \<in> set written_signatures" and "total_names (metric_name q)"
  shows "group_key r = group_key q \<longleftrightarrow> metric_name r = metric_name q"
proof
  assume "group_key r = group_key q"
  then have "strip_calculated (metric_name r) = strip_calculated (metric_name q)"
    by (simp add: group_key_def)
  then show "metric_name r = metric_name q"
    using total_group_written [OF assms(1,2)] total_group_written [OF assms(3,4)]
    by metis
next
  assume "metric_name r = metric_name q"
  then show "group_key r = group_key q"
    using total_group_written [OF assms(1,2)] total_group_written [OF assms(3,4)]
    by (simp add: group_key_def)
qed

lemma total_of_group_written:
  assumes "\<forall>r \<in> set t. signature r \<in> set written_signatures"
    and "q \<in> set t" and "totalMetrics_where d q"
  shows "total_of_group (filter (totalMetrics_where d) t) (group_key q) =
     \<lparr>total_name = strip_calculated (metric_name q),
      total_value =
        (if metric_name q = ''calculated_average_deal_size''
         then sql_avg (rows_named d (metric_name q) t)
         else sql_sum (rows_named d (metric_name q) t)),
      total_type = metric_type q\<rparr>"
proof -
  have q: "signature q \<in> set written_signatures" "total_names (metric_name q)"
    "metric_date q = d"
    using assms by (simp_all add: totalMetrics_where_def)
  have "(totalMetrics_where d r \<and> group_key r = group_key q) =
        (metric_date r = d \<and> metric_name r = metric_name q)" if "r \<in> set t" for r
  proof (cases "total_names (metric_name r)")
    case True
    then show ?thesis
      using same_group_written [OF _ True q(1,2)] assms(1) that
      by (simp add: totalMetrics_where_def)
  next
    case False
    then show ?thesis
      using q(2) by (auto simp add: totalMetrics_where_def)
  qed
  then have g: "filter (\<lambda>r. group_key r = group_key q) (filter (totalMetrics_where d) t) =
      rows_named d (metric_name q) t"
    by (simp add: rows_named_def cong: filter_cong)
  have "q \<in> set (rows_named d (metric_name q) t)"
    using assms(2) q(3) by (simp add: rows_named_def)
  then obtain r rest where rr: "rows_named d (metric_name q) t = r # rest"
    by (cases "rows_named d (metric_name q) t") auto
  then have "r \<in> set (rows_named d (metric_name q) t)"
    by simp
  then have "metric_name r = metric_name q"
    by (simp add: rows_named_def)
  then have "average_name (metric_name r) = (metric_name q = ''calculated_average_deal_size'')"
    using total_group_written [OF q(1,2)] by simp
  then show ?thesis
    unfolding total_of_group_def Let_def g
    by (simp add: rr group_key_def)
qed


lemma reachable_unique:
  assumes "reachable t"
  shows "unique_metric t"
  using assms
proof (induction rule: reachable.induct)
  case created
  show ?case by (simp add: unique_metric_def)
next
  case (today t g conn now date rep)
  obtain rnd i where g: "g = (rnd, i)"
    by (cases g)
  show ?case
    unfolding g today_run using today(3) by (intro unique_write_row)
next
  case (sample t g conn now daysSinceStart date rep)
  obtain rnd i where g: "g = (rnd, i)"
    by (cases g)
  show ?case
    unfolding g sample_run using sample(3) by (intro unique_write_row)
next
  case (cleanup t)
  then show ?case
    by (simp add: unique_metric_def cleanupCalculatedMetrics_def Let_def distinct_map_filter
          del: sql_like.simps)
qed

lemma rows_named_one_per_representative:
  assumes "unique_metric t"
  shows "distinct (map representative (rows_named d n t))"
proof -
  have "distinct (map row_key (rows_named d n t))"
    using assms by (simp add: unique_metric_def rows_named_def distinct_map_filter)
  then have d: "distinct (rows_named d n t)" and i: "inj_on row_key (set (rows_named d n t))"
    by (simp_all add: distinct_map)
  have "inj_on representative (set (rows_named d n t))"
  proof (rule inj_onI)
    fix x y
    assume x: "x \<in> set (rows_named d n t)" and y: "y \<in> set (rows_named d n t)"
      and e: "representative x = representative y"
    have "row_key x = row_key y"
      using x y e by (simp add: rows_named_def row_key_def)
    then show "x = y"
      using i x y by (simp add: inj_on_def)
  qed
  then show ?thesis
    using d by (simp add: distinct_map)
qed

section \<open>The team total of the average deal size\<close>

text \<open>
  Claim C1, as stated: the team total of \<open>average_deal_size\<close> is recomputed from the
  totals, team revenue divided by team deals, and is never the average of the values of
  the representatives. It fails: the \<open>totalMetrics\<close> query takes \<open>AVG(metric_value)\<close> over
  the stored rows. With 24000 from 3 deals for one representative and 6000 from 1 deal
  for another, the stored averages are 8000 and 6000 and the query returns their mean
  7000, where the totals give 7500.
\<close>

theorem team_average_counterexample:
  "totalMetrics ''2025-07-01'' deal_size_rows =
     [\<lparr>total_name = ''average_deal_size'', total_value = 7000, total_type = ''currency''\<rparr>] \<and>
   map metric_value deal_size_rows =
     [spec_average_deal_size 24000 3, spec_average_deal_size 6000 1] \<and>
   spec_team_average_deal_size [(24000, 3), (6000, 1)] = 7500 \<and>
   (7000 :: rat) = (8000 + 6000) / 2"
  by code_simp

text \<open>
  Claim C1, amended: on every table the scripts produce and for every date, the team
  total of \<open>average_deal_size\<close> is the arithmetic mean of the stored
  \<open>calculated_average_deal_size\<close> values of that date, one per representative; the
  totals of \<open>appointments_booked\<close>, \<open>appointments_canceled\<close> and
  \<open>appointments_conducted\<close> are the sums of the stored values; the query totals no
  other metric.
\<close>

theorem team_total_averages_stored_values:
  assumes "reachable t"
  shows
    "(\<forall>x \<in> set (totalMetrics d t).
        (total_name x = ''average_deal_size'' \<and>
         total_value x = sql_avg (rows_named d ''calculated_average_deal_size'' t)) \<or>
        (total_name x \<in> {''appointments_booked'', ''appointments_canceled'',
                          ''appointments_conducted''} \<and>
         total_value x = sql_sum (rows_named d (''calculated_'' @ total_name x) t))) \<and>
     (rows_named d ''calculated_average_deal_size'' t \<noteq> [] \<longrightarrow>
        (\<exists>x \<in> set (totalMetrics d t).
           total_name x = ''average_deal_size'' \<and>
           total_value x = sql_avg (rows_named d ''calculated_average_deal_size'' t))) \<and>
     distinct (map representative (rows_named d ''calculated_average_deal_size'' t))"
proof (intro conjI ballI impI)
  have sig: "\<forall>r \<in> set t. signature r \<in> set written_signatures"
    by (rule reachable_signatures [OF assms])
  {
    fix x
    assume "x \<in> set (totalMetrics d t)"
    then obtain q where q: "q \<in> set t" "totalMetrics_where d q"
        "x = total_of_group (filter (totalMetrics_where d) t) (group_key q)"
      unfolding totalMetrics_member by blast
    have x: "x = \<lparr>total_name = strip_calculated (metric_name q),
      total_value =
        (if metric_name q = ''calculated_average_deal_size''
         then sql_avg (rows_named d (metric_name q) t)
         else sql_sum (rows_named d (metric_name q) t)),
      total_type = metric_type q\<rparr>"
      unfolding q(3) by (rule total_of_group_written [OF sig q(1,2)])
    have n: "metric_name q \<in> {''calculated_appointments_booked'',
           ''calculated_appointments_canceled'', ''calculated_appointments_conducted'',
           ''calculated_average_deal_size''}"
      "metric_name q = ''calculated_'' @ strip_calculated (metric_name q)"
      using total_group_written [of q] sig q(1,2) by (simp_all add: totalMetrics_where_def)
    show "(total_name x = ''average_deal_size'' \<and>
         total_value x = sql_avg (rows_named d ''calculated_average_deal_size'' t)) \<or>
        (total_name x \<in> {''appointments_booked'', ''appointments_canceled'',
                          ''appointments_conducted''} \<and>
         total_value x = sql_sum (rows_named d (''calculated_'' @ total_name x) t))"
      using n unfolding x by (auto simp add: strip_calculated_written)
  }
  {
    assume "rows_named d ''calculated_average_deal_size'' t \<noteq> []"
    then obtain q where q: "q \<in> set t" "metric_date q = d"
        "metric_name q = ''calculated_average_deal_size''"
      by (auto simp add: rows_named_def filter_empty_conv)
    have w: "totalMetrics_where d q"
      using q by (simp add: totalMetrics_where_def total_names_written)
    have "total_of_group (filter (totalMetrics_where d) t) (group_key q)
        \<in> set (totalMetrics d t)"
      using q(1) w unfolding totalMetrics_member by blast
    then show "\<exists>x \<in> set (totalMetrics d t).
           total_name x = ''average_deal_size'' \<and>
           total_value x = sql_avg (rows_named d ''calculated_average_deal_size'' t)"
      unfolding total_of_group_written [OF sig q(1) w]
      by (rule bexI [rotated]) (simp add: q(3) strip_calculated_written)
  }
  show "distinct (map representative (rows_named d ''calculated_average_deal_size'' t))"
    by (rule rows_named_one_per_representative [OF reachable_unique [OF assms]])
qed

theorem team_total_averages_stored_values_witness:
  "totalMetrics ''2025-07-01''
     (fst (generateDataForRepresentative_today (\<lambda>k. True) 0 ''2025-07-01'' ''mike''
        (fst (generateDataForRepresentative_today (\<lambda>k. True) 0 ''2025-07-01'' ''sierra''
           ([], (\<lambda>j. 1 / 2, 0))), (\<lambda>j. 1 / 2, 0)))) =
     [\<lparr>total_name = ''appointments_booked'', total_value = 16, total_type = ''count''\<rparr>,
      \<lparr>total_name = ''appointments_canceled'', total_value = 4, total_type = ''count''\<rparr>,
      \<lparr>total_name = ''appointments_conducted'', total_value = 12, total_type = ''count''\<rparr>,
      \<lparr>total_name = ''average_deal_size'', total_value = 7000, total_type = ''currency''\<rparr>] \<and>
   map metric_value (rows_named ''2025-07-01'' ''calculated_average_deal_size''
     (fst (generateDataForRepresentative_today (\<lambda>k. True) 0 ''2025-07-01'' ''mike''
        (fst (generateDataForRepresentative_today (\<lambda>k. True) 0 ''2025-07-01'' ''sierra''
           ([], (\<lambda>j. 1 / 2, 0))), (\<lambda>j. 1 / 2, 0))))) = [7800, 6200] \<and>
   (\<exists>x \<in> set (totalMetrics ''2025-07-01''
        (fst (generateDataForRepresentative_today (\<lambda>k. True) 0 ''2025-07-01'' ''mike''
        (fst (generateDataForRepresentative_today (\<lambda>k. True) 0 ''2025-07-01'' ''sierra''
           ([], (\<lambda>j. 1 / 2, 0))), (\<lambda>j. 1 / 2, 0))))).
      total_name x = ''average_deal_size'' \<and>
      total_value x = sql_avg (rows_named ''2025-07-01'' ''calculated_average_deal_size''
        (fst (generateDataForRepresentative_today (\<lambda>k. True) 0 ''2025-07-01'' ''mike''
        (fst (generateDataForRepresentative_today (\<lambda>k. True) 0 ''2025-07-01'' ''sierra''
           ([], (\<lambda>j. 1 / 2, 0))), (\<lambda>j. 1 / 2, 0))))))"
proof -
  have ok: "random_ok (\<lambda>j. 1 / 2, 0)"
    by (simp add: random_ok_def)
  have v: "totalMetrics ''2025-07-01''
     (fst (generateDataForRepresentative_today (\<lambda>k. True) 0 ''2025-07-01'' ''mike''
        (fst (generateDataForRepresentative_today (\<lambda>k. True) 0 ''2025-07-01'' ''sierra''
           ([], (\<lambda>j. 1 / 2, 0))), (\<lambda>j. 1 / 2, 0)))) =
     [\<lparr>total_name = ''appointments_booked'', total_value = 16, total_type = ''count''\<rparr>,
      \<lparr>total_name = ''appointments_canceled'', total_value = 4, total_type = ''count''\<rparr>,
      \<lparr>total_name = ''appointments_conducted'', total_value = 12, total_type = ''count''\<rparr>,
      \<lparr>total_name = ''average_deal_size'', total_value = 7000, total_type = ''currency''\<rparr>]"
    by code_simp
  have n: "map metric_value (rows_named ''2025-07-01'' ''calculated_average_deal_size''
     (fst (generateDataForRepresentative_today (\<lambda>k. True) 0 ''2025-07-01'' ''mike''
        (fst (generateDataForRepresentative_today (\<lambda>k. True) 0 ''2025-07-01'' ''sierra''
           ([], (\<lambda>j. 1 / 2, 0))), (\<lambda>j. 1 / 2, 0))))) = [7800, 6200]"
    by code_simp
  have r: "reachable
     (fst (generateDataForRepresentative_today (\<lambda>k. True) 0 ''2025-07-01'' ''mike''
        (fst (generateDataForRepresentative_today (\<lambda>k. True) 0 ''2025-07-01'' ''sierra''
           ([], (\<lambda>j. 1 / 2, 0))), (\<lambda>j. 1 / 2, 0))))"
    by (intro reachable.today reachable.created ok)
  have "rows_named ''2025-07-01'' ''calculated_average_deal_size''
     (fst (generateDataForRepresentative_today (\<lambda>k. True) 0 ''2025-07-01'' ''mike''
        (fst (generateDataForRepresentative_today (\<lambda>k. True) 0 ''2025-07-01'' ''sierra''
           ([], (\<lambda>j. 1 / 2, 0))), (\<lambda>j. 1 / 2, 0)))) \<noteq> []"
    using n by auto
  then show ?thesis
    using team_total_averages_stored_values [OF r, of "''2025-07-01''"] v n
    by blast
qed

section \<open>Conducted and booked appointments\<close>

text \<open>
  Claim C2, as stated: in every bucket of the persisted output the stored
  \<open>appointments_conducted\<close> is at most the stored \<open>appointments_booked\<close>. It fails:
  \<open>add-today-data.js\<close> draws the booked count anew for the conducted metric. For
  \<open>mikaela\<close> with the draws \<open>0, 0, 7/8, 0\<close> the stored booked count is 5 and the stored
  conducted count is 8.
\<close>

theorem today_conducted_counterexample:
  "lookup_value
     (fst (generateDataForRepresentative_today accept_all 0 ''2025-07-01'' ''mikaela''
        ([], (random_conducted, 0))))
     (''2025-07-01'', ''mikaela'', ''calculated_appointments_booked'') = Some 5 \<and>
   lookup_value
     (fst (generateDataForRepresentative_today accept_all 0 ''2025-07-01'' ''mikaela''
        ([], (random_conducted, 0))))
     (''2025-07-01'', ''mikaela'', ''calculated_appointments_conducted'') = Some 8 \<and>
   (5 :: rat) < 8"
  by code_simp

text \<open>
  Claim C2, amended: the stored \<open>appointments_conducted\<close> is \<open>max(0, booked - canceled)\<close>
  for a booked and a canceled count drawn for it alone; it is not negative and at most
  that booked count, and it is at most the stored \<open>appointments_booked\<close> whenever the draw
  behind its booked count does not exceed the draw behind the stored one.
\<close>

theorem today_conducted_bound:
  assumes "random_ok (rnd, i)"
    and "conn (date, rep, ''calculated_appointments_booked'')"
    and "conn (date, rep, ''calculated_appointments_conducted'')"
  shows
    "lookup_value (fst (generateDataForRepresentative_today conn now date rep (t, (rnd, i))))
       (date, rep, ''calculated_appointments_booked'') =
       Some (Math_round (5 * repFactor rep + rnd i * 5)) \<and>
     lookup_value (fst (generateDataForRepresentative_today conn now date rep (t, (rnd, i))))
       (date, rep, ''calculated_appointments_conducted'') =
       Some (max 0 (Math_round (5 * repFactor rep + rnd (i + 2) * 5) -
                    Math_round (1 * repFactor rep + rnd (i + 3) * 2))) \<and>
     0 \<le> max 0 (Math_round (5 * repFactor rep + rnd (i + 2) * 5) -
                Math_round (1 * repFactor rep + rnd (i + 3) * 2)) \<and>
     max 0 (Math_round (5 * repFactor rep + rnd (i + 2) * 5) -
            Math_round (1 * repFactor rep + rnd (i + 3) * 2))
       \<le> Math_round (5 * repFactor rep + rnd (i + 2) * 5) \<and>
     (rnd (i + 2) \<le> rnd i \<longrightarrow>
        max 0 (Math_round (5 * repFactor rep + rnd (i + 2) * 5) -
               Math_round (1 * repFactor rep + rnd (i + 3) * 2))
          \<le> Math_round (5 * repFactor rep + rnd i * 5))"
proof -
  have pos: "0 \<le> rnd j" for j
    using assms(1) by (simp add: random_ok_def)
  have f: "0 < repFactor rep"
    by (simp add: repFactor_def)
  let ?b = "Math_round (5 * repFactor rep + rnd i * 5)"
  let ?b' = "Math_round (5 * repFactor rep + rnd (i + 2) * 5)"
  let ?c' = "Math_round (1 * repFactor rep + rnd (i + 3) * 2)"
  have c0: "0 \<le> ?c'"
    using pos [of "i + 3"] f by (intro Math_round_nonneg) simp
  have b0: "0 \<le> ?b'"
    using pos [of "i + 2"] f by (intro Math_round_nonneg) simp
  have own: "max 0 (?b' - ?c') \<le> ?b'"
    using c0 b0 by simp
  have mono: "?b' \<le> ?b" if "rnd (i + 2) \<le> rnd i"
    using that by (intro Math_round_mono) simp
  have look_b: "lookup_value
      (fst (generateDataForRepresentative_today conn now date rep (t, (rnd, i))))
      (date, rep, ''calculated_appointments_booked'') = Some ?b"
    using assms(2) by (simp add: today_run lookup_write_row)
  have look_c: "lookup_value
      (fst (generateDataForRepresentative_today conn now date rep (t, (rnd, i))))
      (date, rep, ''calculated_appointments_conducted'') = Some (max 0 (?b' - ?c'))"
    using assms(3) by (simp add: today_run lookup_write_row)
  show ?thesis
    using look_b look_c own mono by auto
qed

theorem today_conducted_bound_witness:
  "lookup_value
     (fst (generateDataForRepresentative_today (\<lambda>k. True) 0 ''2025-07-01'' ''mikaela''
        ([], (\<lambda>j. 1 / 2, 0))))
     (''2025-07-01'', ''mikaela'', ''calculated_appointments_conducted'') = Some 6 \<and>
   lookup_value
     (fst (generateDataForRepresentative_today (\<lambda>k. True) 0 ''2025-07-01'' ''mikaela''
        ([], (\<lambda>j. 1 / 2, 0))))
     (''2025-07-01'', ''mikaela'', ''calculated_appointments_booked'') = Some 8"
proof -
  have r: "random_ok (\<lambda>j. 1 / 2, 0)"
    by (simp add: random_ok_def)
  have v: "Math_round (5 * repFactor ''mikaela'' + 1 / 2 * 5) = 8"
    "Math_round (1 * repFactor ''mikaela'' + 1 / 2 * 2) = 2"
    by code_simp+
  show ?thesis
    using today_conducted_bound [OF r, of "\<lambda>k. True" "''2025-07-01''" "''mikaela''" 0 "[]"] v
    by simp
qed

section \<open>Total revenue\<close>

text \<open>
  Claim C5, as stated: in every bucket of the persisted output the stored
  \<open>total_revenue\<close> is the stored \<open>new_client_revenue\<close> plus the stored \<open>rebuy_revenue\<close>.
  It fails: \<open>sample-data.js\<close> draws both amounts anew for the total and rounds their sum
  to the nearest 100. For \<open>mikaela\<close> on the first day with the draws \<open>0, 0\<close> for the
  amounts and \<open>1/2, 1/2\<close> for the total, the stored amounts are 13000 and 8000 and the
  stored total is 23000.
\<close>

theorem sample_total_revenue_counterexample:
  "lookup_value
     (fst (generateDataForRepresentative_sample accept_all 0 first_day ''2025-07-01''
        ''mikaela'' ([], (random_totals, 0))))
     (''2025-07-01'', ''mikaela'', ''master_new_client_revenue'') = Some 13000 \<and>
   lookup_value
     (fst (generateDataForRepresentative_sample accept_all 0 first_day ''2025-07-01''
        ''mikaela'' ([], (random_totals, 0))))
     (''2025-07-01'', ''mikaela'', ''master_rebuy_revenue'') = Some 8000 \<and>
   lookup_value
     (fst (generateDataForRepresentative_sample accept_all 0 first_day ''2025-07-01''
        ''mikaela'' ([], (random_totals, 0))))
     (''2025-07-01'', ''mikaela'', ''master_total_revenue'') = Some 23000 \<and>
   (23000 :: rat) \<noteq> 13000 + 8000"
  by code_simp

text \<open>
  Claim C5, amended: the stored \<open>total_revenue\<close> is the sum, rounded to the nearest 100,
  of a new-client amount and a rebuy amount computed for it alone by the formulas of the
  two stored amounts, from draws and a reading of the day count of its own; when its
  draws and its day count equal theirs it differs from the sum of the stored amounts by
  at most 100.
\<close>

theorem sample_total_revenue_own_draws:
  assumes "conn (date, rep, ''master_new_client_revenue'')"
    and "conn (date, rep, ''master_rebuy_revenue'')"
    and "conn (date, rep, ''master_total_revenue'')"
  shows
    "lookup_value
       (fst (generateDataForRepresentative_sample conn now daysSinceStart date rep
          (t, (rnd, i))))
       (date, rep, ''master_new_client_revenue'') =
       Some (Math_round ((5000 + 8000 * repFactor rep * dateFactor (daysSinceStart 3) date
               + rnd (i + 4) * 2000) / 100) * 100) \<and>
     lookup_value
       (fst (generateDataForRepresentative_sample conn now daysSinceStart date rep
          (t, (rnd, i))))
       (date, rep, ''master_rebuy_revenue'') =
       Some (Math_round ((3000 + 5000 * repFactor rep * dateFactor (daysSinceStart 4) date
               + rnd (i + 5) * 2000) / 100) * 100) \<and>
     lookup_value
       (fst (generateDataForRepresentative_sample conn now daysSinceStart date rep
          (t, (rnd, i))))
       (date, rep, ''master_total_revenue'') =
       Some (Math_round ((5000 + 8000 * repFactor rep * dateFactor (daysSinceStart 5) date
               + rnd (i + 6) * 2000 +
               (3000 + 5000 * repFactor rep * dateFactor (daysSinceStart 5) date
               + rnd (i + 7) * 2000)) / 100) * 100) \<and>
     (rnd (i + 6) = rnd (i + 4) \<and> rnd (i + 7) = rnd (i + 5) \<and>
      daysSinceStart 5 date = daysSinceStart 3 date \<and>
      daysSinceStart 5 date = daysSinceStart 4 date \<longrightarrow>
        \<bar>Math_round ((5000 + 8000 * repFactor rep * dateFactor (daysSinceStart 5) date
               + rnd (i + 6) * 2000 +
               (3000 + 5000 * repFactor rep * dateFactor (daysSinceStart 5) date
               + rnd (i + 7) * 2000)) / 100) * 100 -
         (Math_round ((5000 + 8000 * repFactor rep * dateFactor (daysSinceStart 3) date
               + rnd (i + 4) * 2000) / 100) * 100 +
          Math_round ((3000 + 5000 * repFactor rep * dateFactor (daysSinceStart 4) date
               + rnd (i + 5) * 2000) / 100) * 100)\<bar> \<le> 100)"
proof -
  have near: "rnd (i + 6) = rnd (i + 4) \<and> rnd (i + 7) = rnd (i + 5) \<and>
      daysSinceStart 5 date = daysSinceStart 3 date \<and>
      daysSinceStart 5 date = daysSinceStart 4 date \<longrightarrow>
        \<bar>Math_round ((5000 + 8000 * repFactor rep * dateFactor (daysSinceStart 5) date
               + rnd (i + 6) * 2000 +
               (3000 + 5000 * repFactor rep * dateFactor (daysSinceStart 5) date
               + rnd (i + 7) * 2000)) / 100) * 100 -
         (Math_round ((5000 + 8000 * repFactor rep * dateFactor (daysSinceStart 3) date
               + rnd (i + 4) * 2000) / 100) * 100 +
          Math_round ((3000 + 5000 * repFactor rep * dateFactor (daysSinceStart 4) date
               + rnd (i + 5) * 2000) / 100) * 100)\<bar> \<le> 100"
  proof (intro impI, elim conjE)
    assume r: "rnd (i + 6) = rnd (i + 4)" "rnd (i + 7) = rnd (i + 5)"
      and d: "daysSinceStart 5 date = daysSinceStart 3 date"
        "daysSinceStart 5 date = daysSinceStart 4 date"
    have df: "dateFactor (daysSinceStart 3) date = dateFactor (daysSinceStart 5) date"
      "dateFactor (daysSinceStart 4) date = dateFactor (daysSinceStart 5) date"
      using d by (simp_all add: dateFactor_def)
    show "\<bar>Math_round ((5000 + 8000 * repFactor rep * dateFactor (daysSinceStart 5) date
               + rnd (i + 6) * 2000 +
               (3000 + 5000 * repFactor rep * dateFactor (daysSinceStart 5) date
               + rnd (i + 7) * 2000)) / 100) * 100 -
         (Math_round ((5000 + 8000 * repFactor rep * dateFactor (daysSinceStart 3) date
               + rnd (i + 4) * 2000) / 100) * 100 +
          Math_round ((3000 + 5000 * repFactor rep * dateFactor (daysSinceStart 4) date
               + rnd (i + 5) * 2000) / 100) * 100)\<bar> \<le> 100"
      unfolding r df
      by (rule round100_sum_near)
  qed
  have looks:
    "lookup_value
       (fst (generateDataForRepresentative_sample conn now daysSinceStart date rep
          (t, (rnd, i))))
       (date, rep, ''master_new_client_revenue'') =
       Some (Math_round ((5000 + 8000 * repFactor rep * dateFactor (daysSinceStart 3) date
               + rnd (i + 4) * 2000) / 100) * 100)"
    "lookup_value
       (fst (generateDataForRepresentative_sample conn now daysSinceStart date rep
          (t, (rnd, i))))
       (date, rep, ''master_rebuy_revenue'') =
       Some (Math_round ((3000 + 5000 * repFactor rep * dateFactor (daysSinceStart 4) date
               + rnd (i + 5) * 2000) / 100) * 100)"
    "lookup_value
       (fst (generateDataForRepresentative_sample conn now daysSinceStart date rep
          (t, (rnd, i))))
       (date, rep, ''master_total_revenue'') =
       Some (Math_round ((5000 + 8000 * repFactor rep * dateFactor (daysSinceStart 5) date
               + rnd (i + 6) * 2000 +
               (3000 + 5000 * repFactor rep * dateFactor (daysSinceStart 5) date
               + rnd (i + 7) * 2000)) / 100) * 100)"
    using assms by (simp_all add: sample_run lookup_write_row)
  show ?thesis
    using looks near by (intro conjI)
qed

theorem sample_total_revenue_own_draws_witness:
  "lookup_value
     (fst (generateDataForRepresentative_sample (\<lambda>k. True) 0 (\<lambda>k d. 0) ''2025-07-01''
        ''mikaela'' ([], (\<lambda>j. 1 / 2, 0))))
     (''2025-07-01'', ''mikaela'', ''master_total_revenue'') = Some 23000 \<and>
   lookup_value
     (fst (generateDataForRepresentative_sample (\<lambda>k. True) 0 (\<lambda>k d. 0) ''2025-07-01''
        ''mikaela'' ([], (\<lambda>j. 1 / 2, 0))))
     (''2025-07-01'', ''mikaela'', ''master_new_client_revenue'') = Some 14000 \<and>
   lookup_value
     (fst (generateDataForRepresentative_sample (\<lambda>k. True) 0 (\<lambda>k d. 0) ''2025-07-01''
        ''mikaela'' ([], (\<lambda>j. 1 / 2, 0))))
     (''2025-07-01'', ''mikaela'', ''master_rebuy_revenue'') = Some 9000"
proof -
  have v: "Math_round ((5000 + 8000 * repFactor ''mikaela'' * dateFactor (\<lambda>d. 0) ''2025-07-01''
             + 1 / 2 * 2000) / 100) = 140"
    "Math_round ((3000 + 5000 * repFactor ''mikaela'' * dateFactor (\<lambda>d. 0) ''2025-07-01''
             + 1 / 2 * 2000) / 100) = 90"
    "Math_round ((5000 + 8000 * repFactor ''mikaela'' * dateFactor (\<lambda>d. 0) ''2025-07-01''
             + 1 / 2 * 2000 + (3000 + 5000 * repFactor ''mikaela'' * dateFactor (\<lambda>d. 0) ''2025-07-01''
             + 1 / 2 * 2000)) / 100) = 230"
    by code_simp+
  show ?thesis
    using sample_total_revenue_own_draws
      [of "\<lambda>k. True" "''2025-07-01''" "''mikaela''" 0 "\<lambda>k d. 0" "[]" "\<lambda>j. 1 / 2" 0] v
    by simp
qed

section \<open>Total of new clients closed\<close>

text \<open>
  Claim C6, as stated: in every bucket of the persisted output the stored
  \<open>total_new_clients_closed\<close> is the stored \<open>new_clients_closed\<close> plus the stored
  \<open>organic_clients_closed\<close>. It fails: \<open>sample-data.js\<close> draws both counts anew for the
  total. For \<open>mikaela\<close> on the first day with the draws \<open>0, 0, 3/4, 3/4\<close> the stored
  counts are 3 and 2 and the stored total is 10.
\<close>

theorem sample_total_clients_counterexample:
  "lookup_value
     (fst (generateDataForRepresentative_sample accept_all 0 first_day ''2025-07-01''
        ''mikaela'' ([], (random_totals, 0))))
     (''2025-07-01'', ''mikaela'', ''master_new_clients_closed'') = Some 3 \<and>
   lookup_value
     (fst (generateDataForRepresentative_sample accept_all 0 first_day ''2025-07-01''
        ''mikaela'' ([], (random_totals, 0))))
     (''2025-07-01'', ''mikaela'', ''master_organic_clients_closed'') = Some 2 \<and>
   lookup_value
     (fst (generateDataForRepresentative_sample accept_all 0 first_day ''2025-07-01''
        ''mikaela'' ([], (random_totals, 0))))
     (''2025-07-01'', ''mikaela'', ''master_total_new_clients_closed'') = Some 10 \<and>
   (10 :: rat) \<noteq> 3 + 2"
  by code_simp

text \<open>
  Claim C6, amended: the stored \<open>total_new_clients_closed\<close> is the sum of a new-client
  count and an organic count computed for it alone by the formulas of the two stored
  counts, from draws and a reading of the day count of its own; it equals the sum of the
  stored counts when its draws and its day count equal theirs.
\<close>

theorem sample_total_clients_own_draws:
  assumes "conn (date, rep, ''master_new_clients_closed'')"
    and "conn (date, rep, ''master_organic_clients_closed'')"
    and "conn (date, rep, ''master_total_new_clients_closed'')"
  shows
    "lookup_value
       (fst (generateDataForRepresentative_sample conn now daysSinceStart date rep
          (t, (rnd, i))))
       (date, rep, ''master_new_clients_closed'') =
       Some (Math_round (3 * repFactor rep * dateFactor (daysSinceStart 0) date + rnd i * 4)) \<and>
     lookup_value
       (fst (generateDataForRepresentative_sample conn now daysSinceStart date rep
          (t, (rnd, i))))
       (date, rep, ''master_organic_clients_closed'') =
       Some (Math_round (2 * repFactor rep * dateFactor (daysSinceStart 1) date
               + rnd (i + 1) * 3)) \<and>
     lookup_value
       (fst (generateDataForRepresentative_sample conn now daysSinceStart date rep
          (t, (rnd, i))))
       (date, rep, ''master_total_new_clients_closed'') =
       Some (Math_round (3 * repFactor rep * dateFactor (daysSinceStart 2) date
               + rnd (i + 2) * 4) +
             Math_round (2 * repFactor rep * dateFactor (daysSinceStart 2) date
               + rnd (i + 3) * 3)) \<and>
     (rnd (i + 2) = rnd i \<and> rnd (i + 3) = rnd (i + 1) \<and>
      daysSinceStart 2 date = daysSinceStart 0 date \<and>
      daysSinceStart 2 date = daysSinceStart 1 date \<longrightarrow>
        Math_round (3 * repFactor rep * dateFactor (daysSinceStart 2) date + rnd (i + 2) * 4) +
        Math_round (2 * repFactor rep * dateFactor (daysSinceStart 2) date + rnd (i + 3) * 3) =
        Math_round (3 * repFactor rep * dateFactor (daysSinceStart 0) date + rnd i * 4) +
        Math_round (2 * repFactor rep * dateFactor (daysSinceStart 1) date + rnd (i + 1) * 3))"
proof -
  have df: "dateFactor (daysSinceStart 0) date = dateFactor (daysSinceStart 2) date"
    "dateFactor (daysSinceStart 1) date = dateFactor (daysSinceStart 2) date"
    if "daysSinceStart 2 date = daysSinceStart 0 date"
      and "daysSinceStart 2 date = daysSinceStart 1 date"
    using that by (simp_all add: dateFactor_def)
  show ?thesis
    using assms df by (auto simp add: sample_run lookup_write_row)
qed

theorem sample_total_clients_own_draws_witness:
  "lookup_value
     (fst (generateDataForRepresentative_sample (\<lambda>k. True) 0 (\<lambda>k d. 0) ''2025-07-01''
        ''mikaela'' ([], (\<lambda>j. 1 / 2, 0))))
     (''2025-07-01'', ''mikaela'', ''master_total_new_clients_closed'') = Some 9 \<and>
   lookup_value
     (fst (generateDataForRepresentative_sample (\<lambda>k. True) 0 (\<lambda>k d. 0) ''2025-07-01''
        ''mikaela'' ([], (\<lambda>j. 1 / 2, 0))))
     (''2025-07-01'', ''mikaela'', ''master_new_clients_closed'') = Some 5 \<and>
   lookup_value
     (fst (generateDataForRepresentative_sample (\<lambda>k. True) 0 (\<lambda>k d. 0) ''2025-07-01''
        ''mikaela'' ([], (\<lambda>j. 1 / 2, 0))))
     (''2025-07-01'', ''mikaela'', ''master_organic_clients_closed'') = Some 4"
proof -
  have v: "Math_round (3 * repFactor ''mikaela'' * dateFactor (\<lambda>d. 0) ''2025-07-01''
             + 1 / 2 * 4) = 5"
    "Math_round (2 * repFactor ''mikaela'' * dateFactor (\<lambda>d. 0) ''2025-07-01''
             + 1 / 2 * 3) = 4"
    by code_simp+
  show ?thesis
    using sample_total_clients_own_draws
      [of "\<lambda>k. True" "''2025-07-01''" "''mikaela''" 0 "\<lambda>k d. 0" "[]" "\<lambda>j. 1 / 2" 0] v
    by simp
qed

section \<open>One row per key\<close>

text \<open>
  Claim C3. The store holds one row per key \<open>(metric_date, representative,
  metric_name)\<close>: a run of either writer on a table with unique keys leaves the keys
  unique; it only updates rows in place or appends, so the rows that were there keep
  their keys and places; running \<open>sample-data.js\<close> again for the same date and
  representative adds no row (when the second run is accepted no more often than the
  first), and each value it stores is the one it computed, whatever the table held.
\<close>

theorem writers_keep_one_row_per_key:
  assumes "unique_metric t"
  shows
    "unique_metric
       (fst (generateDataForRepresentative_sample conn now daysSinceStart date rep (t, (rnd, i)))) \<and>
     unique_metric
       (fst (generateDataForRepresentative_today conn now date rep (t, (rnd, i)))) \<and>
     (\<exists>ks. map row_key
        (fst (generateDataForRepresentative_sample conn now daysSinceStart date rep (t, (rnd, i))))
        = map row_key t @ ks) \<and>
     (\<exists>ks. map row_key
        (fst (generateDataForRepresentative_today conn now date rep (t, (rnd, i))))
        = map row_key t @ ks) \<and>
     ((\<forall>k. conn' k \<longrightarrow> conn k) \<longrightarrow>
        map row_key
          (fst (generateDataForRepresentative_sample conn' now' daysSinceStart' date rep
             (fst (generateDataForRepresentative_sample conn now daysSinceStart date rep
                (t, (rnd, i))), (rnd', i')))) =
        map row_key
          (fst (generateDataForRepresentative_sample conn now daysSinceStart date rep
             (t, (rnd, i))))) \<and>
     (\<forall>m \<in> set metricNames. conn' (date, rep, ''master_'' @ name m) \<longrightarrow>
        lookup_value
          (fst (generateDataForRepresentative_sample conn' now' daysSinceStart' date rep
             (fst (generateDataForRepresentative_sample conn now daysSinceStart date rep
                (t, (rnd, i))), (rnd', i'))))
          (date, rep, ''master_'' @ name m) =
        lookup_value
          (fst (generateDataForRepresentative_sample conn' now' daysSinceStart' date rep
             ([], (rnd', i'))))
          (date, rep, ''master_'' @ name m))"
proof (intro conjI)
  show "unique_metric
       (fst (generateDataForRepresentative_sample conn now daysSinceStart date rep (t, (rnd, i))))"
    using assms by (simp add: sample_run unique_write_row)
  show "unique_metric
       (fst (generateDataForRepresentative_today conn now date rep (t, (rnd, i))))"
    using assms by (simp add: today_run unique_write_row)
  show "\<exists>ks. map row_key
        (fst (generateDataForRepresentative_sample conn now daysSinceStart date rep (t, (rnd, i))))
        = map row_key t @ ks"
    unfolding sample_run by (intro keys_write_row_extend) simp
  show "\<exists>ks. map row_key
        (fst (generateDataForRepresentative_today conn now date rep (t, (rnd, i))))
        = map row_key t @ ks"
    unfolding today_run by (intro keys_write_row_extend) simp
  show "(\<forall>k. conn' k \<longrightarrow> conn k) \<longrightarrow>
        map row_key
          (fst (generateDataForRepresentative_sample conn' now' daysSinceStart' date rep
             (fst (generateDataForRepresentative_sample conn now daysSinceStart date rep
                (t, (rnd, i))), (rnd', i')))) =
        map row_key
          (fst (generateDataForRepresentative_sample conn now daysSinceStart date rep
             (t, (rnd, i))))"
  proof
    assume sub: "\<forall>k. conn' k \<longrightarrow> conn k"
    show "map row_key
          (fst (generateDataForRepresentative_sample conn' now' daysSinceStart' date rep
             (fst (generateDataForRepresentative_sample conn now daysSinceStart date rep
                (t, (rnd, i))), (rnd', i')))) =
        map row_key
          (fst (generateDataForRepresentative_sample conn now daysSinceStart date rep
             (t, (rnd, i))))"
      by (rule sample_rerun_keys) (use sub sample_key_present in blast)
  qed
  show "\<forall>m \<in> set metricNames. conn' (date, rep, ''master_'' @ name m) \<longrightarrow>
        lookup_value
          (fst (generateDataForRepresentative_sample conn' now' daysSinceStart' date rep
             (fst (generateDataForRepresentative_sample conn now daysSinceStart date rep
                (t, (rnd, i))), (rnd', i'))))
          (date, rep, ''master_'' @ name m) =
        lookup_value
          (fst (generateDataForRepresentative_sample conn' now' daysSinceStart' date rep
             ([], (rnd', i'))))
          (date, rep, ''master_'' @ name m)"
    using sample_lookup_own by blast
qed


theorem writers_keep_one_row_per_key_witness:
  "unique_metric [] \<and>
   unique_metric
     (fst (generateDataForRepresentative_sample (\<lambda>k. True) 0 (\<lambda>k d. 0) ''2025-07-01''
        ''mikaela'' ([], (\<lambda>j. 1 / 2, 0)))) \<and>
   map row_key
     (fst (generateDataForRepresentative_sample (\<lambda>k. True) 1 (\<lambda>k d. 0) ''2025-07-01''
        ''mikaela''
        (fst (generateDataForRepresentative_sample (\<lambda>k. True) 0 (\<lambda>k d. 0) ''2025-07-01''
           ''mikaela'' ([], (\<lambda>j. 1 / 2, 0))), (\<lambda>j. 1 / 4, 0)))) =
   map row_key
     (fst (generateDataForRepresentative_sample (\<lambda>k. True) 0 (\<lambda>k d. 0) ''2025-07-01''
        ''mikaela'' ([], (\<lambda>j. 1 / 2, 0))))"
proof -
  have u: "unique_metric []"
    by (simp add: unique_metric_def)
  show ?thesis
    using u writers_keep_one_row_per_key
      [OF u, of "\<lambda>k. True" 0 "\<lambda>k d. 0" "''2025-07-01''" "''mikaela''" "\<lambda>j. 1 / 2" 0
         "\<lambda>k. True" 1 "\<lambda>k d. 0" "\<lambda>j. 1 / 4" 0]
    by simp
qed

section \<open>Percentages between 0 and 100\<close>

text \<open>
  Claim C7. In every table the scripts produce, each stored close rate and show rate
  lies in the closed interval from 0 to 100: \<open>add-today-data.js\<close> caps the value with
  \<open>Math.min(100, value)\<close>, its summands are not negative, and \<open>toFixed(2)\<close> keeps the
  bounds; no other script writes these names.
\<close>

theorem percentages_within_0_100:
  assumes "reachable t"
  shows "percentages_in_range t"
  using assms
proof (induction rule: reachable.induct)
  case created
  show ?case
    by (simp add: percentages_in_range_def)
next
  case (today t g conn now date rep)
  obtain rnd i where g: "g = (rnd, i)"
    by (cases g)
  have r: "0 \<le> rnd j \<and> rnd j < 1" for j
    using today(2) g by (simp add: random_ok_def)
  have f: "0 < repFactor rep"
    by (simp add: repFactor_def)
  have c: "0 \<le> min 100 (45 + 20 * repFactor rep + rnd (i + 5) * 15)"
    using r [of "i + 5"] f by simp
  have s: "0 \<le> min 100 (65 + 15 * repFactor rep + rnd (i + 6) * 15)"
    using r [of "i + 6"] f by simp
  show ?case
    unfolding g today_run
    using today(3) toFixed2_percentage [OF c] toFixed2_percentage [OF s]
    by (intro percentages_write_row) simp_all
next
  case (sample t g conn now daysSinceStart date rep)
  obtain rnd i where g: "g = (rnd, i)"
    by (cases g)
  show ?case
    unfolding g sample_run
    using sample(3) by (intro percentages_write_row) simp_all
next
  case (cleanup t)
  then show ?case
    using set_cleanup [of t] by (auto simp add: percentages_in_range_def)
qed

theorem percentages_within_0_100_witness:
  "percentages_in_range
     (fst (generateDataForRepresentative_today (\<lambda>k. True) 0 ''2025-07-01'' ''sierra''
        ([], (\<lambda>j. 1 / 2, 0)))) \<and>
   lookup_value
     (fst (generateDataForRepresentative_today (\<lambda>k. True) 0 ''2025-07-01'' ''sierra''
        ([], (\<lambda>j. 1 / 2, 0))))
     (''2025-07-01'', ''sierra'', ''calculated_show_rate'') = Some (181 / 2)"
proof -
  have ok: "random_ok (\<lambda>j. 1 / 2, 0)"
    by (simp add: random_ok_def)
  have v: "lookup_value
     (fst (generateDataForRepresentative_today (\<lambda>k. True) 0 ''2025-07-01'' ''sierra''
        ([], (\<lambda>j. 1 / 2, 0))))
     (''2025-07-01'', ''sierra'', ''calculated_show_rate'') = Some (181 / 2)"
    by code_simp
  show ?thesis
    using percentages_within_0_100 [OF reachable.today [OF reachable.created ok]] v
    by simp
qed

section \<open>Rounding of currency values\<close>

text \<open>
  Claim C8. Every currency value a writer stores is its computed value rounded half-up
  to two decimal places: both writers pass \<open>value.toFixed(2)\<close>, which rounds every
  non-negative number below \<open>10^21\<close> half-up to two decimals, and the currency values,
  already rounded to the nearest 100, are stored as they are.
\<close>

theorem currency_rounded_half_up:
  "(conn (date, rep, ''calculated_average_deal_size'') \<longrightarrow>
      (\<exists>v. lookup_value
              (fst (generateDataForRepresentative_today conn now date rep (t, (rnd, i))))
              (date, rep, ''calculated_average_deal_size'') = Some v \<and>
            rounds_half_up_2dp
              (fst (today_value rep \<lparr>name = ''average_deal_size'', type = ''currency''\<rparr>
                      (rnd, i + 4))) v)) \<and>
   (conn (date, rep, ''master_new_client_revenue'') \<longrightarrow>
      (\<exists>v. lookup_value
              (fst (generateDataForRepresentative_sample conn now daysSinceStart date rep
                 (t, (rnd, i))))
              (date, rep, ''master_new_client_revenue'') = Some v \<and>
            rounds_half_up_2dp
              (fst (sample_value (dateFactor (daysSinceStart 3) date) rep
                      \<lparr>name = ''new_client_revenue'', type = ''currency''\<rparr> (rnd, i + 4))) v)) \<and>
   (conn (date, rep, ''master_rebuy_revenue'') \<longrightarrow>
      (\<exists>v. lookup_value
              (fst (generateDataForRepresentative_sample conn now daysSinceStart date rep
                 (t, (rnd, i))))
              (date, rep, ''master_rebuy_revenue'') = Some v \<and>
            rounds_half_up_2dp
              (fst (sample_value (dateFactor (daysSinceStart 4) date) rep
                      \<lparr>name = ''rebuy_revenue'', type = ''currency''\<rparr> (rnd, i + 5))) v)) \<and>
   (conn (date, rep, ''master_total_revenue'') \<longrightarrow>
      (\<exists>v. lookup_value
              (fst (generateDataForRepresentative_sample conn now daysSinceStart date rep
                 (t, (rnd, i))))
              (date, rep, ''master_total_revenue'') = Some v \<and>
            rounds_half_up_2dp
              (fst (sample_value (dateFactor (daysSinceStart 5) date) rep
                      \<lparr>name = ''total_revenue'', type = ''currency''\<rparr> (rnd, i + 6))) v)) \<and>
   (\<forall>x. 0 \<le> x \<and> x < 10 ^ 21 \<longrightarrow> rounds_half_up_2dp x (toFixed2 x))"
  by (simp add: today_run sample_run lookup_write_row today_value_simps sample_value_simps
        rounds_half_up_hundreds toFixed2_half_up add.commute [of 7 i])

theorem currency_rounded_half_up_witness:
  "(\<exists>v. lookup_value
          (fst (generateDataForRepresentative_sample (\<lambda>k. True) 0 (\<lambda>k d. 0) ''2025-07-01''
             ''mikaela'' ([], (\<lambda>j. 1 / 2, 0))))
          (''2025-07-01'', ''mikaela'', ''master_total_revenue'') = Some v \<and>
        rounds_half_up_2dp
          (fst (sample_value (dateFactor (\<lambda>d. 0) ''2025-07-01'') ''mikaela''
                  \<lparr>name = ''total_revenue'', type = ''currency''\<rparr> (\<lambda>j. 1 / 2, 0 + 6))) v) \<and>
   rounds_half_up_2dp (1 / 8) (toFixed2 (1 / 8)) \<and>
   toFixed2 (1 / 8) = 13 / 100"
proof -
  have v: "toFixed2 (1 / 8) = 13 / 100"
    by code_simp
  show ?thesis
    using v currency_rounded_half_up
      [of "\<lambda>k. True" "''2025-07-01''" "''mikaela''" 0 "[]" "\<lambda>j. 1 / 2" 0 "\<lambda>k d. 0"]
    by simp
qed

section \<open>Prefixes of stored metric names\<close>

text \<open>
  Claim C9. In every table the scripts produce, each row carries a prefixed name:
  \<open>calculated_\<close> and a name of \<open>calculatedMetrics\<close> when \<open>add-today-data.js\<close> wrote it,
  \<open>master_\<close> and a name of \<open>metricNames\<close> when \<open>sample-data.js\<close> wrote it; so no row is
  named by a bare name of the twelve-metric table. On such a table the dashboard's
  queries return prefixed rows only, and the names they compute for display are the
  stored names with the prefix removed.
\<close>

theorem stored_names_carry_prefix:
  assumes "reachable t"
  shows
    "(\<forall>r \<in> set t.
        ((\<exists>m \<in> set calculatedMetrics.
            metric_name r = ''calculated_'' @ name m \<and> source r = ''today-data-script'') \<or>
         (\<exists>m \<in> set metricNames.
            metric_name r = ''master_'' @ name m \<and> source r = ''sample-data'')) \<and>
        metric_name r \<notin> set spec_metric_names) \<and>
     (\<forall>r \<in> set (metrics_query d t).
        \<exists>m \<in> set metricNames. metric_name r = ''master_'' @ name m) \<and>
     (\<forall>x \<in> set (totalMetrics d t).
        total_name x \<in> set spec_metric_names \<and>
        (\<exists>r \<in> set t. metric_name r = ''calculated_'' @ total_name x)) \<and>
     (\<forall>cr \<in> set (repMetrics d t) \<union> set (chartData d t).
        fst cr \<in> set spec_metric_names \<and>
        (metric_name (snd cr) = ''calculated_'' @ fst cr \<or>
         metric_name (snd cr) = ''master_'' @ fst cr))"
proof -
  have sig: "signature r \<in> set written_signatures" if "r \<in> set t" for r
    using reachable_signatures [OF assms] that by blast
  have stored: "\<forall>r \<in> set t.
        ((\<exists>m \<in> set calculatedMetrics.
            metric_name r = ''calculated_'' @ name m \<and> source r = ''today-data-script'') \<or>
         (\<exists>m \<in> set metricNames.
            metric_name r = ''master_'' @ name m \<and> source r = ''sample-data'')) \<and>
        metric_name r \<notin> set spec_metric_names"
    using sig written_by bare_name_not_written by blast
  have master: "\<forall>r \<in> set (metrics_query d t).
        \<exists>m \<in> set metricNames. metric_name r = ''master_'' @ name m"
    using sig master_written by (auto simp add: metrics_query_def metrics_where_def)
  have total: "total_name x \<in> set spec_metric_names \<and>
        (\<exists>r \<in> set t. metric_name r = ''calculated_'' @ total_name x)"
    if xin: "x \<in> set (totalMetrics d t)" for x
  proof -
    obtain r where r0: "r \<in> set t" "totalMetrics_where d r"
        "x = total_of_group (filter (totalMetrics_where d) t) (group_key r)"
      using xin unfolding totalMetrics_member by blast
    have "total_name x = fst (group_key r)"
      unfolding r0(3) by (simp add: total_of_group_def Let_def)
    with r0 have r: "r \<in> set t" "totalMetrics_where d r" "total_name x = fst (group_key r)"
      by simp_all
    have "total_names (metric_name r)"
      using r(2) by (simp add: totalMetrics_where_def)
    then have "strip_calculated (metric_name r) \<in> set spec_metric_names \<and>
        metric_name r = ''calculated_'' @ strip_calculated (metric_name r)"
      using written_signature_cases [OF sig [OF r(1)]]
      by (auto simp add: total_names_written strip_calculated_written spec_metric_names_def)
    then show ?thesis
      using r by (auto simp add: group_key_def)
  qed
  have rows: "\<forall>cr \<in> set (repMetrics d t) \<union> set (chartData d t).
        fst cr \<in> set spec_metric_names \<and>
        (metric_name (snd cr) = ''calculated_'' @ fst cr \<or>
         metric_name (snd cr) = ''master_'' @ fst cr)"
  proof
    fix cr
    assume "cr \<in> set (repMetrics d t) \<union> set (chartData d t)"
    then obtain r where r: "r \<in> set t" "cr = (clean_metric_name r, r)"
      by (auto simp add: repMetrics_def chartData_def)
    show "fst cr \<in> set spec_metric_names \<and>
        (metric_name (snd cr) = ''calculated_'' @ fst cr \<or>
         metric_name (snd cr) = ''master_'' @ fst cr)"
      using clean_written [OF sig [OF r(1)]] r(2) by simp
  qed
  show ?thesis
    using stored master total rows by blast
qed


theorem stored_names_carry_prefix_witness:
  "map metric_name
     (fst (generateDataForRepresentative_today (\<lambda>k. True) 0 ''2025-07-01'' ''sierra''
        ([], (\<lambda>j. 1 / 2, 0)))) =
     [''calculated_appointments_booked'', ''calculated_appointments_canceled'',
      ''calculated_appointments_conducted'', ''calculated_average_deal_size'',
      ''calculated_close_rate'', ''calculated_show_rate''] \<and>
   \<not> (\<exists>r \<in> set (fst (generateDataForRepresentative_today (\<lambda>k. True) 0 ''2025-07-01'' ''sierra''
        ([], (\<lambda>j. 1 / 2, 0)))).
      metric_name r \<in> set spec_metric_names) \<and>
   \<not> (\<exists>cr \<in> set (repMetrics ''2025-07-01''
        (fst (generateDataForRepresentative_today (\<lambda>k. True) 0 ''2025-07-01'' ''sierra''
        ([], (\<lambda>j. 1 / 2, 0))))).
      fst cr \<notin> set spec_metric_names)"
proof -
  have ok: "random_ok (\<lambda>j. 1 / 2, 0)"
    by (simp add: random_ok_def)
  have names: "map metric_name
     (fst (generateDataForRepresentative_today (\<lambda>k. True) 0 ''2025-07-01'' ''sierra''
        ([], (\<lambda>j. 1 / 2, 0)))) =
     [''calculated_appointments_booked'', ''calculated_appointments_canceled'',
      ''calculated_appointments_conducted'', ''calculated_average_deal_size'',
      ''calculated_close_rate'', ''calculated_show_rate'']"
    by code_simp
  show ?thesis
    using names
      stored_names_carry_prefix [OF reachable.today [OF reachable.created ok],
        of "\<lambda>k. True" 0 "''2025-07-01''" "''sierra''" "''2025-07-01''"]
    by blast
qed

section \<open>The cleanup\<close>



section \<open>Percentages with a zero divisor\<close>

text \<open>
  Claim C4. For every bucket, a percentage metric whose divisor is zero has the value 0:
  with no bookings the show rate is 0, with no conducted appointments the close rate is
  0; and neither metric ever yields the division-by-zero error.
\<close>

theorem zero_divisor_yields_zero:
  "(booked b = 0 \<longrightarrow> show_rate b = Inr 0) \<and>
   (conducted b = 0 \<longrightarrow> close_rate b = Inr 0) \<and>
   (\<exists>v. show_rate b = Inr v) \<and> (\<exists>v. close_rate b = Inr v)"
  by (simp add: show_rate_def close_rate_def checked_divide_def)

theorem zero_divisor_yields_zero_witness:
  "show_rate \<lparr>booked = 0, canceled = 0, conducted = 0, new_clients_closed = 0,
     organic_clients_closed = 0, new_client_revenue = 0, rebuy_revenue = 0\<rparr> = Inr 0 \<and>
   close_rate \<lparr>booked = 0, canceled = 0, conducted = 0, new_clients_closed = 0,
     organic_clients_closed = 0, new_client_revenue = 0, rebuy_revenue = 0\<rparr> = Inr 0"
  using zero_divisor_yields_zero
    [of "\<lparr>booked = 0, canceled = 0, conducted = 0, new_clients_closed = 0,
          organic_clients_closed = 0, new_client_revenue = 0, rebuy_revenue = 0\<rparr>"]
  by simp

end
